theory Spec2Isabelle
  imports Main "HOL-Library.Product_Lexorder" "HOL-Library.List_Lexorder" "HOL-Library.Char_ord"
    "HOL-Library.Option_ord" "HOL-Library.Multiset"
begin

text \<open>
  A model of \<open>03_multiple_files_spliting_option.py\<close>: the class \<open>DuckDBProcessor\<close> with its
  six pipeline stages, its validation gate and its cleanup, and the batch loop of \<open>main\<close>.
  The SQL statements the stages send to the engine are modelled by what they compute on the
  five relations; the Python around them (gates, \<open>try\<close>/\<open>except\<close>/\<open>finally\<close>, short-circuit
  \<open>and\<close>) is modelled as written.
\<close>

section \<open>The moneyness classifier (step 5.6 of \<open>create_cal_data\<close>)\<close>

text \<open>
  The SQL predicate \<open>x BETWEEN lo AND hi\<close> on integers: both ends inclusive.
\<close>

definition between :: "int \<Rightarrow> int \<Rightarrow> int \<Rightarrow> bool" where
  "between x lo hi \<longleftrightarrow> lo \<le> x \<and> x \<le> hi"

text \<open>
  The inner \<open>CASE\<close> of the \<open>option_type = 'CE'\<close> branch, in the order of the source. A
  \<open>CASE\<close> without \<open>ELSE\<close> yields NULL (\<open>None\<close>) when no \<open>WHEN\<close> applies.
\<close>

definition moneyness_CE :: "int \<Rightarrow> string option" where
  "moneyness_CE d =
    (if d \<le> - 501 then Some ''DEEPITM''
     else if between d (- 500) (- 451) then Some ''ATM-10''
     else if between d (- 450) (- 401) then Some ''ATM-9''
     else if between d (- 400) (- 351) then Some ''ATM-8''
     else if between d (- 350) (- 301) then Some ''ATM-7''
     else if between d (- 300) (- 251) then Some ''ATM-6''
     else if between d (- 250) (- 201) then Some ''ATM-5''
     else if between d (- 200) (- 151) then Some ''ATM-4''
     else if between d (- 150) (- 101) then Some ''ATM-3''
     else if between d (- 100) (- 51) then Some ''ATM-2''
     else if between d (- 50) 0 then Some ''ATM-1''
     else if between d 0 50 then Some ''ATM''
     else if between d 51 100 then Some ''ATM+1''
     else if between d 101 150 then Some ''ATM+2''
     else if between d 151 200 then Some ''ATM+3''
     else if between d 201 250 then Some ''ATM+4''
     else if between d 251 300 then Some ''ATM+5''
     else if between d 301 350 then Some ''ATM+6''
     else if between d 351 400 then Some ''ATM+7''
     else if between d 401 450 then Some ''ATM+8''
     else if between d 451 500 then Some ''ATM+9''
     else if between d 501 550 then Some ''ATM+10''
     else if 551 \<le> d then Some ''DEEPOTM''
     else None)"

text \<open>The inner \<open>CASE\<close> of the \<open>option_type = 'PE'\<close> branch.\<close>

definition moneyness_PE :: "int \<Rightarrow> string option" where
  "moneyness_PE d =
    (if d \<le> - 501 then Some ''DEEPOTM''
     else if between d (- 500) (- 451) then Some ''ATM+10''
     else if between d (- 450) (- 401) then Some ''ATM+9''
     else if between d (- 400) (- 351) then Some ''ATM+8''
     else if between d (- 350) (- 301) then Some ''ATM+7''
     else if between d (- 300) (- 251) then Some ''ATM+6''
     else if between d (- 250) (- 201) then Some ''ATM+5''
     else if between d (- 200) (- 151) then Some ''ATM+4''
     else if between d (- 150) (- 101) then Some ''ATM+3''
     else if between d (- 100) (- 51) then Some ''ATM+2''
     else if between d (- 50) 0 then Some ''ATM+1''
     else if between d 0 50 then Some ''ATM''
     else if between d 51 100 then Some ''ATM-1''
     else if between d 101 150 then Some ''ATM-2''
     else if between d 151 200 then Some ''ATM-3''
     else if between d 201 250 then Some ''ATM-4''
     else if between d 251 300 then Some ''ATM-5''
     else if between d 301 350 then Some ''ATM-6''
     else if between d 351 400 then Some ''ATM-7''
     else if between d 401 450 then Some ''ATM-8''
     else if between d 451 500 then Some ''ATM-9''
     else if between d 501 550 then Some ''ATM-10''
     else if 551 \<le> d then Some ''DEEPITM''
     else None)"

text \<open>
  The outer \<open>CASE\<close>: \<open>option_type\<close> and \<open>strdifference\<close> are nullable columns. A comparison
  with NULL is not true, so a NULL \<open>option_type\<close> selects no branch and a NULL
  \<open>strdifference\<close> selects no band; the value is then NULL.
\<close>

definition moneyness :: "string option \<Rightarrow> int option \<Rightarrow> string option" where
  "moneyness option_type strdifference =
    (case option_type of
       None \<Rightarrow> None
     | Some t \<Rightarrow>
         if t = ''CE'' then (case strdifference of None \<Rightarrow> None | Some d \<Rightarrow> moneyness_CE d)
         else if t = ''PE'' then (case strdifference of None \<Rightarrow> None | Some d \<Rightarrow> moneyness_PE d)
         else None)"

text \<open>Decimal text of a natural number, for the labels \<open>ATM+k\<close> and \<open>ATM-k\<close>.\<close>

fun dec :: "nat \<Rightarrow> string" where
  "dec n = (if n < 10 then [char_of (48 + n)] else dec (n div 10) @ [char_of (48 + n mod 10)])"

declare dec.simps [simp del]

definition atm_plus :: "nat \<Rightarrow> string" where
  "atm_plus k = ''ATM+'' @ dec k"

definition atm_minus :: "nat \<Rightarrow> string" where
  "atm_minus k = ''ATM-'' @ dec k"

text \<open>The 23 labels: ten below, the centre, ten above, and the two extremes.\<close>

definition labels :: "string list" where
  "labels = map atm_minus (rev [1 ..< 11]) @ [''ATM''] @ map atm_plus [1 ..< 11] @ [''DEEPITM'', ''DEEPOTM'']"

section \<open>Relations, the processor and its environment\<close>

text \<open>
  Column types: \<open>VARCHAR\<close> is \<open>string\<close>, \<open>INTEGER\<close> is \<open>int\<close> (the engine raises on a value
  outside 32 bits instead of wrapping, see \<open>int32\<close> below), \<open>DATE\<close> is the number of days since
  1970-01-01 and \<open>TIME\<close> the number of microseconds since midnight. Every column is
  nullable: NULL is \<open>None\<close>. Field names carry the relation's initial, since a field name
  is a constant of the theory.
\<close>

record option_row =
  o_symbol :: "string option"
  o_date :: "int option"
  o_time :: "int option"
  o_open :: "int option"
  o_high :: "int option"
  o_low :: "int option"
  o_close :: "int option"
  o_volume :: "int option"
  o_oi :: "int option"

record index_row =
  i_date :: "int option"
  i_time :: "int option"
  i_idx_open :: "int option"
  i_idx_high :: "int option"
  i_idx_low :: "int option"
  i_idx_close :: "int option"

record future_row =
  f_date :: "int option"
  f_time :: "int option"
  f_fut_open :: "int option"
  f_fut_high :: "int option"
  f_fut_low :: "int option"
  f_fut_close :: "int option"
  f_fut_volume :: "int option"
  f_fut_oi :: "int option"

record split_row =
  s_symbol :: "string option"
  s_instrument :: "string option"
  s_expiry_date :: "int option"
  s_strike_price :: "int option"
  s_option_type :: "string option"
  s_date :: "int option"

record cal_row =
  c_symbol :: "string option"
  c_instrument :: "string option"
  c_expiry_date :: "int option"
  c_date :: "int option"
  c_time :: "int option"
  c_expiry_day :: "int option"
  c_strike_price :: "int option"
  c_option_type :: "string option"
  c_spot :: "int option"
  c_strdifference :: "int option"
  c_dte :: "int option"
  c_open :: "int option"
  c_high :: "int option"
  c_low :: "int option"
  c_close :: "int option"
  c_volume :: "int option"
  c_oi :: "int option"
  c_moneyness :: "string option"
  c_idx_open :: "int option"
  c_idx_high :: "int option"
  c_idx_low :: "int option"
  c_idx_close :: "int option"
  c_fut_open :: "int option"
  c_fut_high :: "int option"
  c_fut_low :: "int option"
  c_fut_close :: "int option"
  c_fut_volume :: "int option"
  c_fut_oi :: "int option"

text \<open>The five relations that \<open>setup_database\<close> creates; a relation is the list of its rows.\<close>

record db =
  options :: "option_row list"
  index_data :: "index_row list"
  future_data :: "future_row list"
  splits :: "split_row list"
  cal_data :: "cal_row list"

text \<open>
  Python exceptions as values. \<open>KeyboardInterrupt\<close> is not an \<open>Exception\<close>: the handlers
  \<open>except Exception\<close> of the stages and of \<open>process_file\<close> let it pass, and only \<open>main\<close>
  catches it. \<open>Exception\<close> carries the message \<open>str(e)\<close>.
\<close>

datatype exc = KeyboardInterrupt | Exception string

text \<open>What the logger receives, as far as the warnings and counts below are concerned.\<close>

datatype log_event =
    WarnUnparsed nat
  | WarnFailedSample "string option list"
  | InfoFiltered nat nat
  | WarnNotRemoved string
  | ErrorFailed string

text \<open>
  The fields of \<open>DuckDBProcessor\<close> (\<open>memory_percent\<close> only sets an engine option and is left
  out). \<open>conn\<close> is \<open>None\<close> or the open session, which is the scratch database; \<open>row_counts\<close>
  is the dictionary of last observed row counts; \<open>log\<close> stands for the module's logger.
\<close>

record processor =
  validate :: bool
  keep_temp :: bool
  conn :: "db option"
  current_file :: "string option"
  current_output :: "string option"
  db_file :: "string option"
  row_counts :: "string \<rightharpoonup> nat"
  failed_files :: "(string \<times> string) list"
  log :: "log_event list"

text \<open>
  What the run of one input file receives from outside the program: the results of the
  calls that reach the file system and the engine's choices that the source leaves open.
  \<^item> \<open>connect_result\<close>: \<open>duckdb.connect(db_file)\<close> followed by \<open>setup_database\<close>, the
    scratch database as opened (five empty relations for a new file, the kept content
    for a scratch file of an earlier run), or the exception raised;
  \<^item> \<open>read_options\<close>, \<open>read_index\<close>, \<open>read_future\<close>: the rows that the \<open>SELECT\<close> over
    \<open>read_parquet(current_file)\<close> of steps 1 to 3 yields (filtered, cast and rounded by
    the engine), or the exception raised;
  \<^item> \<open>pick_split\<close>, \<open>pick_index\<close>, \<open>pick_future\<close>: \<open>UPDATE ... FROM\<close> with several
    source rows matching one target row uses one of them; which one is the engine's
    choice, applied to the list of matching rows;
  \<^item> \<open>copy_result\<close>: the exception raised by \<open>COPY ... TO\<close>, if any;
  \<^item> \<open>remove_result\<close>: the message of the exception raised by \<open>os.remove(db_file)\<close>,
    if any.
\<close>

record file_env =
  connect_result :: "exc + db"
  read_options :: "exc + option_row list"
  read_index :: "exc + index_row list"
  read_future :: "exc + future_row list"
  pick_split :: "split_row list \<Rightarrow> split_row"
  pick_index :: "index_row list \<Rightarrow> index_row"
  pick_future :: "future_row list \<Rightarrow> future_row"
  copy_result :: "exc option"
  remove_result :: "string option"

text \<open>The file system: the paths that exist, and the rows of each exported artifact.\<close>

record world =
  fs :: "string set"
  exported :: "string \<rightharpoonup> cal_row list"

section \<open>SQL and Python primitives\<close>

text \<open>SQL equality in a \<open>WHERE\<close> or \<open>ON\<close> clause: true only for two equal non-NULL values.\<close>

definition sql_eq :: "'a option \<Rightarrow> 'a option \<Rightarrow> bool" where
  "sql_eq a b = (case a of None \<Rightarrow> False | Some x \<Rightarrow> (case b of None \<Rightarrow> False | Some y \<Rightarrow> x = y))"

text \<open>
  A value stored in an \<open>INTEGER\<close> column or produced by \<open>INTEGER\<close> arithmetic: the engine
  raises outside the 32-bit range.
\<close>

definition int32 :: "string \<Rightarrow> int \<Rightarrow> exc + int" where
  "int32 msg v = (if - 2147483648 \<le> v \<and> v \<le> 2147483647 then Inr v else Inl (Exception msg))"

text \<open>All results, or the first exception: the statement fails as a whole.\<close>

fun sequence :: "(exc + 'a) list \<Rightarrow> exc + 'a list" where
  "sequence [] = Inr []"
| "sequence (x # xs) =
     (case x of
        Inl e \<Rightarrow> Inl e
      | Inr v \<Rightarrow> (case sequence xs of Inl e \<Rightarrow> Inl e | Inr vs \<Rightarrow> Inr (v # vs)))"

text \<open>
  Python's \<open>s.replace(old, new)\<close> for a non-empty \<open>old\<close>: every occurrence, scanning from
  the left without overlap. \<open>skip\<close> counts the characters of a replaced occurrence that
  are still to be passed over.
\<close>

fun replace_from :: "string \<Rightarrow> string \<Rightarrow> nat \<Rightarrow> string \<Rightarrow> string" where
  "replace_from old new skip [] = []"
| "replace_from old new skip (c # cs) =
     (if 0 < skip then replace_from old new (skip - 1) cs
      else if old \<noteq> [] \<and> take (length old) (c # cs) = old
        then new @ replace_from old new (length old - 1) cs
      else c # replace_from old new 0 cs)"

definition replace :: "string \<Rightarrow> string \<Rightarrow> string \<Rightarrow> string" where
  "replace s old new = replace_from old new 0 s"

text \<open>\<open>os.path.basename\<close> and \<open>os.path.join\<close> of two components, for POSIX paths.\<close>

definition basename :: "string \<Rightarrow> string" where
  "basename path = rev (takeWhile (\<lambda>c. c \<noteq> CHR ''/'') (rev path))"

definition path_join :: "string \<Rightarrow> string \<Rightarrow> string" where
  "path_join a b =
     (if b \<noteq> [] \<and> hd b = CHR ''/'' then b
      else if a = [] \<or> last a = CHR ''/'' then a @ b
      else a @ ''/'' @ b)"

section \<open>The validation gate\<close>

text \<open>
  The row count of a relation of the scratch database by name, \<open>None\<close> for a name that
  \<open>information_schema.tables\<close> does not list.
\<close>

definition table_rows :: "db \<Rightarrow> string \<Rightarrow> nat option" where
  "table_rows d table_name =
     (if table_name = ''options'' then Some (length (options d))
      else if table_name = ''index_data'' then Some (length (index_data d))
      else if table_name = ''future_data'' then Some (length (future_data d))
      else if table_name = ''splits'' then Some (length (splits d))
      else if table_name = ''cal_data'' then Some (length (cal_data d))
      else None)"

text \<open>
  \<open>validate_data\<close>. With no open session \<open>self.conn.execute\<close> raises, and so does the
  count of a relation that the existence query wrongly admitted; both end in the
  \<open>except\<close> branch, which returns \<open>False\<close>.
\<close>

definition validate_data :: "processor \<Rightarrow> string \<Rightarrow> int \<Rightarrow> bool \<times> processor" where
  "validate_data p table_name expected_min_rows =
     (if \<not> validate p then (True, p)
      else
        (case conn p of
           None \<Rightarrow> (False, p)
         | Some d \<Rightarrow>
             (case table_rows d table_name of
                None \<Rightarrow> (False, p)
              | Some row_count \<Rightarrow>
                  (let p' = p\<lparr>row_counts := (row_counts p)(table_name \<mapsto> row_count)\<rparr>
                   in if int row_count < expected_min_rows then (False, p') else (True, p')))))"

section \<open>Steps 1 to 3: extraction\<close>

text \<open>
  A stage returns \<open>Inr b\<close> for the Python value \<open>b\<close>, or \<open>Inl e\<close> when the exception \<open>e\<close>
  leaves it. Each stage wraps its statements in \<open>try ... except Exception: return False\<close>,
  so only \<open>KeyboardInterrupt\<close> leaves a stage (the decorator \<open>time_tracker\<close> re-raises what
  it sees and changes no result).
\<close>

type_synonym stage_result = "(exc + bool) \<times> processor"

definition create_option_data :: "file_env \<Rightarrow> processor \<Rightarrow> stage_result" where
  "create_option_data env p =
     (case conn p of
        None \<Rightarrow> (Inr False, p)
      | Some d \<Rightarrow>
          (case read_options env of
             Inl KeyboardInterrupt \<Rightarrow> (Inl KeyboardInterrupt, p)
           | Inl (Exception m) \<Rightarrow> (Inr False, p)
           | Inr rows \<Rightarrow>
               (let p1 = p\<lparr>conn := Some (d\<lparr>options := options d @ rows\<rparr>)\<rparr>;
                    (ok, p2) = validate_data p1 ''options'' 100
                in (Inr ok, p2))))"

definition create_index_data :: "file_env \<Rightarrow> processor \<Rightarrow> stage_result" where
  "create_index_data env p =
     (let (ready, p0) = validate_data p ''options'' 1 in
      if \<not> ready then (Inr False, p0)
      else
        (case conn p0 of
           None \<Rightarrow> (Inr False, p0)
         | Some d \<Rightarrow>
             (case read_index env of
                Inl KeyboardInterrupt \<Rightarrow> (Inl KeyboardInterrupt, p0)
              | Inl (Exception m) \<Rightarrow> (Inr False, p0)
              | Inr rows \<Rightarrow>
                  (let p1 = p0\<lparr>conn := Some (d\<lparr>index_data := index_data d @ rows\<rparr>)\<rparr>;
                       (ok, p2) = validate_data p1 ''index_data'' 10
                   in (Inr ok, p2)))))"

text \<open>
  The gate of step 3 is \<open>not validate_data("options") or not validate_data("index_data")\<close>:
  the second check runs only when the first passed.
\<close>

definition create_future_data :: "file_env \<Rightarrow> processor \<Rightarrow> stage_result" where
  "create_future_data env p =
     (let (ready1, pa) = validate_data p ''options'' 1;
          (ready, p0) = (if \<not> ready1 then (False, pa) else validate_data pa ''index_data'' 1) in
      if \<not> ready then (Inr False, p0)
      else
        (case conn p0 of
           None \<Rightarrow> (Inr False, p0)
         | Some d \<Rightarrow>
             (case read_future env of
                Inl KeyboardInterrupt \<Rightarrow> (Inl KeyboardInterrupt, p0)
              | Inl (Exception m) \<Rightarrow> (Inr False, p0)
              | Inr rows \<Rightarrow>
                  (let p1 = p0\<lparr>conn := Some (d\<lparr>future_data := future_data d @ rows\<rparr>)\<rparr>;
                       (ok, p2) = validate_data p1 ''future_data'' 10
                   in (Inr ok, p2)))))"

section \<open>Step 4: the symbol decomposer\<close>

text \<open>The character classes \<open>[A-Z]\<close> and \<open>\d\<close> of the pattern (ASCII).\<close>

definition is_upper :: "char \<Rightarrow> bool" where
  "is_upper c \<longleftrightarrow> 65 \<le> (of_char c :: nat) \<and> (of_char c :: nat) \<le> 90"

definition is_digit :: "char \<Rightarrow> bool" where
  "is_digit c \<longleftrightarrow> 48 \<le> (of_char c :: nat) \<and> (of_char c :: nat) \<le> 57"

text \<open>
  A match of \<open>([A-Z]+)(\d{2})([A-Z]{3})(\d{2})(\d+)(PE|CE)\<close> that starts at the head of
  the text, as its six groups. Each repetition is followed by a character of another
  class, so the greedy choice is the only one that can succeed: group 1 is the whole run
  of capitals, group 5 the whole run of digits after the two digits of group 4.
\<close>

definition match_at :: "string \<Rightarrow> string list option" where
  "match_at s =
     (let g1 = takeWhile is_upper s; r1 = dropWhile is_upper s;
          g2 = take 2 r1; r2 = drop 2 r1;
          g3 = take 3 r2; r3 = drop 3 r2;
          g4 = take 2 r3; r4 = drop 2 r3;
          g5 = takeWhile is_digit r4; r5 = dropWhile is_digit r4;
          g6 = take 2 r5
      in if g1 \<noteq> [] \<and> length g2 = 2 \<and> list_all is_digit g2
            \<and> length g3 = 3 \<and> list_all is_upper g3
            \<and> length g4 = 2 \<and> list_all is_digit g4
            \<and> g5 \<noteq> [] \<and> (g6 = ''PE'' \<or> g6 = ''CE'')
         then Some [g1, g2, g3, g4, g5, g6] else None)"

text \<open>The search is not anchored: the leftmost start with a match wins.\<close>

fun regexp_search :: "string \<Rightarrow> string list option" where
  "regexp_search [] = None"
| "regexp_search (c # cs) =
     (case match_at (c # cs) of Some gs \<Rightarrow> Some gs | None \<Rightarrow> regexp_search cs)"

text \<open>
  The engine's \<open>regexp_extract(symbol, pattern, g)\<close> for \<open>g\<close> from 1 to 6: the text of group
  \<open>g\<close> of the leftmost match, and the empty string (not NULL) when the pattern matches
  nowhere.
\<close>

definition regexp_extract :: "string \<Rightarrow> nat \<Rightarrow> string" where
  "regexp_extract s g = (case regexp_search s of None \<Rightarrow> [] | Some gs \<Rightarrow> gs ! (g - 1))"

text \<open>
  \<open>CAST(text AS INTEGER)\<close> for the texts that reach it here, which are runs of decimal
  digits or empty: the engine raises a conversion error on the empty string and on a
  value beyond 32 bits.
\<close>

definition digits_value :: "string \<Rightarrow> int" where
  "digits_value s = foldl (\<lambda>v c. 10 * v + (int (of_char c) - 48)) 0 s"

definition cast_integer :: "string \<Rightarrow> exc + int" where
  "cast_integer s =
     (if s = [] \<or> \<not> list_all is_digit s then Inl (Exception ''Conversion Error'')
      else int32 ''Conversion Error'' (digits_value s))"

text \<open>The \<open>CASE month WHEN 'JAN' THEN 1 ... END\<close> of the outer query: NULL for any other text.\<close>

definition month_number :: "string \<Rightarrow> int option" where
  "month_number m =
     (if m = ''JAN'' then Some 1 else if m = ''FEB'' then Some 2 else if m = ''MAR'' then Some 3
      else if m = ''APR'' then Some 4 else if m = ''MAY'' then Some 5 else if m = ''JUN'' then Some 6
      else if m = ''JUL'' then Some 7 else if m = ''AUG'' then Some 8 else if m = ''SEP'' then Some 9
      else if m = ''OCT'' then Some 10 else if m = ''NOV'' then Some 11 else if m = ''DEC'' then Some 12
      else None)"

text \<open>Calendar: days of a month, and the day number of a date counted from 1970-01-01.\<close>

definition leap_year :: "int \<Rightarrow> bool" where
  "leap_year y \<longleftrightarrow> (y mod 4 = 0 \<and> y mod 100 \<noteq> 0) \<or> y mod 400 = 0"

definition days_in_month :: "int \<Rightarrow> int \<Rightarrow> int" where
  "days_in_month y m =
     (if m = 2 then (if leap_year y then 29 else 28)
      else if m = 4 \<or> m = 6 \<or> m = 9 \<or> m = 11 then 30 else 31)"

definition days_from_civil :: "int \<Rightarrow> int \<Rightarrow> int \<Rightarrow> int" where
  "days_from_civil y m d =
     (let y' = (if m \<le> 2 then y - 1 else y);
          era = y' div 400;
          yoe = y' - era * 400;
          doy = (153 * (if 2 < m then m - 3 else m + 9) + 2) div 5 + d - 1;
          doe = yoe * 365 + yoe div 4 - yoe div 100 + doy
      in era * 146097 + doe - 719468)"

text \<open>
  \<open>make_date(year, month, day)\<close>: NULL when an argument is NULL, an exception for a day
  that the month does not have.
\<close>

definition make_date :: "int \<Rightarrow> int option \<Rightarrow> int \<Rightarrow> exc + int option" where
  "make_date y mo d =
     (case mo of
        None \<Rightarrow> Inr None
      | Some m \<Rightarrow>
          if 1 \<le> m \<and> m \<le> 12 \<and> 1 \<le> d \<and> d \<le> days_in_month y m
          then Inr (Some (days_from_civil y m d))
          else Inl (Exception ''Conversion Error: Date out of range''))"

text \<open>\<open>symbol LIKE 'NIFTY%'\<close>: a non-NULL text that starts with \<open>NIFTY\<close>.\<close>

definition like_nifty :: "string option \<Rightarrow> bool" where
  "like_nifty symbol = (case symbol of None \<Rightarrow> False | Some s \<Rightarrow> take 5 s = ''NIFTY'')"

text \<open>A row of the common table expression \<open>parsed_symbols\<close>.\<close>

record parsed_row =
  ps_symbol :: "string option"
  ps_instrument :: "string option"
  ps_day :: "string option"
  ps_month :: "string option"
  ps_year :: "string option"
  ps_strike_price :: "int option"
  ps_option_type :: "string option"
  ps_date :: "int option"

text \<open>
  The select list of \<open>parsed_symbols\<close> on one row of \<open>options\<close>. The cast of group 5
  raises when the symbol has no match, since the extracted text is then empty.
\<close>

definition parse_symbol :: "option_row \<Rightarrow> exc + parsed_row" where
  "parse_symbol r =
     (case o_symbol r of
        None \<Rightarrow>
          Inr \<lparr>ps_symbol = None, ps_instrument = None, ps_day = None, ps_month = None,
               ps_year = None, ps_strike_price = None, ps_option_type = None, ps_date = o_date r\<rparr>
      | Some s \<Rightarrow>
          (case cast_integer (regexp_extract s 5) of
             Inl e \<Rightarrow> Inl e
           | Inr k \<Rightarrow>
               Inr \<lparr>ps_symbol = Some s, ps_instrument = Some (regexp_extract s 1),
                    ps_day = Some (regexp_extract s 2), ps_month = Some (regexp_extract s 3),
                    ps_year = Some (regexp_extract s 4), ps_strike_price = Some k,
                    ps_option_type = Some (regexp_extract s 6), ps_date = o_date r\<rparr>))"

text \<open>\<open>SELECT DISTINCT ... FROM options WHERE symbol LIKE 'NIFTY%'\<close>.\<close>

definition parsed_symbols :: "option_row list \<Rightarrow> exc + parsed_row list" where
  "parsed_symbols opts =
     (case sequence (map parse_symbol (filter (\<lambda>r. like_nifty (o_symbol r)) opts)) of
        Inl e \<Rightarrow> Inl e
      | Inr rows \<Rightarrow> Inr (remdups rows))"

text \<open>The \<open>WHERE ... IS NOT NULL\<close> of the outer query, and its select list.\<close>

definition all_fields_present :: "parsed_row \<Rightarrow> bool" where
  "all_fields_present r \<longleftrightarrow>
     ps_instrument r \<noteq> None \<and> ps_day r \<noteq> None \<and> ps_month r \<noteq> None \<and> ps_year r \<noteq> None
     \<and> ps_strike_price r \<noteq> None \<and> ps_option_type r \<noteq> None"

definition split_of :: "parsed_row \<Rightarrow> exc + split_row" where
  "split_of r =
     (case cast_integer (case ps_year r of None \<Rightarrow> [] | Some y \<Rightarrow> y) of
        Inl e \<Rightarrow> Inl e
      | Inr y \<Rightarrow>
          (case cast_integer (case ps_day r of None \<Rightarrow> [] | Some d \<Rightarrow> d) of
             Inl e \<Rightarrow> Inl e
           | Inr d \<Rightarrow>
               (case make_date (2000 + y)
                       (case ps_month r of None \<Rightarrow> None | Some m \<Rightarrow> month_number m) d of
                  Inl e \<Rightarrow> Inl e
                | Inr expiry \<Rightarrow>
                    Inr \<lparr>s_symbol = ps_symbol r, s_instrument = ps_instrument r,
                         s_expiry_date = expiry, s_strike_price = ps_strike_price r,
                         s_option_type = ps_option_type r, s_date = ps_date r\<rparr>)))"

text \<open>The rows that the \<open>INSERT INTO splits\<close> of step 4 adds, or the exception it raises.\<close>

definition split_query :: "option_row list \<Rightarrow> exc + split_row list" where
  "split_query opts =
     (case parsed_symbols opts of
        Inl e \<Rightarrow> Inl e
      | Inr rows \<Rightarrow> sequence (map split_of (filter all_fields_present rows)))"

text \<open>
  The rows counted by the check for parsing errors: rows of \<open>options\<close> with a candidate
  symbol that the left join pairs with no row of \<open>splits\<close>.
\<close>

definition unparsed_rows :: "db \<Rightarrow> option_row list" where
  "unparsed_rows d =
     filter (\<lambda>r. like_nifty (o_symbol r) \<and> \<not> list_ex (\<lambda>s. sql_eq (o_symbol r) (s_symbol s)) (splits d))
       (options d)"

definition create_split_data :: "processor \<Rightarrow> stage_result" where
  "create_split_data p =
     (let (ready, p0) = validate_data p ''options'' 1 in
      if \<not> ready then (Inr False, p0)
      else
        (case conn p0 of
           None \<Rightarrow> (Inr False, p0)
         | Some d \<Rightarrow>
             (case split_query (options d) of
                Inl KeyboardInterrupt \<Rightarrow> (Inl KeyboardInterrupt, p0)
              | Inl (Exception m) \<Rightarrow> (Inr False, p0)
              | Inr rows \<Rightarrow>
                  (let d1 = d\<lparr>splits := splits d @ rows\<rparr>;
                       failed = unparsed_rows d1;
                       failed_count = length failed;
                       warnings =
                         (if 0 < failed_count
                          then WarnUnparsed failed_count #
                            (if validate p0
                             then [WarnFailedSample (take 5 (remdups (map o_symbol failed)))]
                             else [])
                          else []);
                       p1 = p0\<lparr>conn := Some d1, log := log p0 @ warnings\<rparr>;
                       (ok, p2) = validate_data p1 ''splits'' 10
                   in (Inr ok, p2)))))"

section \<open>Step 5: enrichment and classification\<close>

text \<open>Step 5.1: the nine base columns of a row of \<open>options\<close>; every other column is NULL.\<close>

definition seed_row :: "option_row \<Rightarrow> cal_row" where
  "seed_row r =
     \<lparr>c_symbol = o_symbol r, c_instrument = None, c_expiry_date = None, c_date = o_date r,
      c_time = o_time r, c_expiry_day = None, c_strike_price = None, c_option_type = None,
      c_spot = None, c_strdifference = None, c_dte = None, c_open = o_open r, c_high = o_high r,
      c_low = o_low r, c_close = o_close r, c_volume = o_volume r, c_oi = o_oi r,
      c_moneyness = None, c_idx_open = None, c_idx_high = None, c_idx_low = None,
      c_idx_close = None, c_fut_open = None, c_fut_high = None, c_fut_low = None,
      c_fut_close = None, c_fut_volume = None, c_fut_oi = None\<rparr>"

text \<open>
  Steps 5.2 to 5.4 on one row of \<open>cal_data\<close>: a row with no matching source row is left as
  it is; otherwise the listed columns are set from the source row that the engine picks
  among the matching ones.
\<close>

definition update_from_splits :: "(split_row list \<Rightarrow> split_row) \<Rightarrow> split_row list \<Rightarrow> cal_row \<Rightarrow> cal_row" where
  "update_from_splits pick src c =
     (case filter (\<lambda>s. sql_eq (c_symbol c) (s_symbol s)) src of
        [] \<Rightarrow> c
      | m # ms \<Rightarrow>
          (let s = pick (m # ms) in
           c\<lparr>c_instrument := s_instrument s, c_expiry_date := s_expiry_date s,
             c_strike_price := s_strike_price s, c_option_type := s_option_type s\<rparr>))"

definition update_from_index :: "(index_row list \<Rightarrow> index_row) \<Rightarrow> index_row list \<Rightarrow> cal_row \<Rightarrow> cal_row" where
  "update_from_index pick src c =
     (case filter (\<lambda>i. sql_eq (c_date c) (i_date i) \<and> sql_eq (c_time c) (i_time i)) src of
        [] \<Rightarrow> c
      | m # ms \<Rightarrow>
          (let i = pick (m # ms) in
           c\<lparr>c_idx_open := i_idx_open i, c_idx_high := i_idx_high i, c_idx_low := i_idx_low i,
             c_idx_close := i_idx_close i, c_spot := i_idx_close i\<rparr>))"

definition update_from_future :: "(future_row list \<Rightarrow> future_row) \<Rightarrow> future_row list \<Rightarrow> cal_row \<Rightarrow> cal_row" where
  "update_from_future pick src c =
     (case filter (\<lambda>f. sql_eq (c_date c) (f_date f) \<and> sql_eq (c_time c) (f_time f)) src of
        [] \<Rightarrow> c
      | m # ms \<Rightarrow>
          (let f = pick (m # ms) in
           c\<lparr>c_fut_open := f_fut_open f, c_fut_high := f_fut_high f, c_fut_low := f_fut_low f,
             c_fut_close := f_fut_close f, c_fut_volume := f_fut_volume f, c_fut_oi := f_fut_oi f\<rparr>))"

text \<open>
  Step 5.5. \<open>extract('dow' ...)\<close> numbers the days from Sunday as 0, and day 0 of the
  calendar was a Thursday. A difference with a NULL operand is NULL; one outside 32 bits
  raises.
\<close>

definition sub32 :: "int option \<Rightarrow> int option \<Rightarrow> exc + int option" where
  "sub32 a b =
     (case a of
        None \<Rightarrow> Inr None
      | Some x \<Rightarrow>
          (case b of
             None \<Rightarrow> Inr None
           | Some y \<Rightarrow>
               (case int32 ''Out of Range Error'' (x - y) of Inl e \<Rightarrow> Inl e | Inr v \<Rightarrow> Inr (Some v))))"

definition derive :: "cal_row \<Rightarrow> exc + cal_row" where
  "derive c =
     (case sub32 (c_strike_price c) (c_spot c) of
        Inl e \<Rightarrow> Inl e
      | Inr sd \<Rightarrow>
          (case sub32 (c_expiry_date c) (c_date c) of
             Inl e \<Rightarrow> Inl e
           | Inr dd \<Rightarrow>
               Inr (c\<lparr>c_expiry_day := map_option (\<lambda>e. (e + 4) mod 7) (c_expiry_date c),
                      c_strdifference := sd, c_dte := dd\<rparr>)))"

text \<open>Step 5.6 on one row.\<close>

definition classify :: "cal_row \<Rightarrow> cal_row" where
  "classify c = c\<lparr>c_moneyness := moneyness (c_option_type c) (c_strdifference c)\<rparr>"

text \<open>
  The four gates of step 5 are chained by \<open>and\<close>: a gate runs only when those before it
  passed.
\<close>

definition cal_gates :: "processor \<Rightarrow> bool \<times> processor" where
  "cal_gates p =
     (let (r1, p1) = validate_data p ''options'' 1 in
      if \<not> r1 then (False, p1)
      else
        (let (r2, p2) = validate_data p1 ''splits'' 1 in
         if \<not> r2 then (False, p2)
         else
           (let (r3, p3) = validate_data p2 ''index_data'' 1 in
            if \<not> r3 then (False, p3) else validate_data p3 ''future_data'' 1)))"

text \<open>The relation \<open>cal_data\<close> after steps 5.1 to 5.4.\<close>

definition enrich :: "file_env \<Rightarrow> db \<Rightarrow> cal_row list" where
  "enrich env d =
     map (update_from_future (pick_future env) (future_data d))
       (map (update_from_index (pick_index env) (index_data d))
         (map (update_from_splits (pick_split env) (splits d))
           (cal_data d @ map seed_row (options d))))"

text \<open>
  Every statement commits on its own, so an exception in step 5.5 leaves \<open>cal_data\<close> as
  step 5.4 made it. The counts of NULL \<open>spot\<close> and \<open>strike_price\<close> are only logged.
\<close>

definition create_cal_data :: "file_env \<Rightarrow> processor \<Rightarrow> stage_result" where
  "create_cal_data env p =
     (let (ready, p0) = cal_gates p in
      if \<not> ready then (Inr False, p0)
      else
        (case conn p0 of
           None \<Rightarrow> (Inr False, p0)
         | Some d \<Rightarrow>
             (let d4 = d\<lparr>cal_data := enrich env d\<rparr> in
              case sequence (map derive (cal_data d4)) of
                Inl KeyboardInterrupt \<Rightarrow> (Inl KeyboardInterrupt, p0\<lparr>conn := Some d4\<rparr>)
              | Inl (Exception m) \<Rightarrow> (Inr False, p0\<lparr>conn := Some d4\<rparr>)
              | Inr rows \<Rightarrow>
                  (let p1 = p0\<lparr>conn := Some (d4\<lparr>cal_data := map classify rows\<rparr>)\<rparr>;
                       (ok, p2) = validate_data p1 ''cal_data'' 100
                   in (Inr ok, p2)))))"

section \<open>Steps 6 and 7: filter and export\<close>

text \<open>\<open>moneyness IN ('DEEPITM', 'DEEPOTM')\<close>: not true for NULL.\<close>

definition is_deep :: "string option \<Rightarrow> bool" where
  "is_deep m \<longleftrightarrow> m = Some ''DEEPITM'' \<or> m = Some ''DEEPOTM''"

text \<open>
  \<open>ORDER BY date, time, symbol\<close>, ascending with the engine's default of NULLs last:
  each key column is preceded by its NULL flag. Texts compare byte by byte.
\<close>

definition order_key :: "cal_row \<Rightarrow> (bool \<times> int option) \<times> (bool \<times> int option) \<times> (bool \<times> string option)" where
  "order_key c =
     ((c_date c = None, c_date c), (c_time c = None, c_time c), (c_symbol c = None, c_symbol c))"

type_synonym export_result = "(exc + bool) \<times> processor \<times> world"

text \<open>
  The deletion is committed before the \<open>COPY\<close> runs. The path in the \<open>COPY\<close> statement is
  the formatted \<open>current_output\<close>.
\<close>

definition filter_and_export :: "file_env \<Rightarrow> processor \<Rightarrow> world \<Rightarrow> export_result" where
  "filter_and_export env p w =
     (let (ready, p0) = validate_data p ''cal_data'' 1 in
      if \<not> ready then (Inr False, p0, w)
      else
        (case conn p0 of
           None \<Rightarrow> (Inr False, p0, w)
         | Some d \<Rightarrow>
             (let total_before = length (cal_data d);
                  d1 = d\<lparr>cal_data := filter (\<lambda>c. \<not> is_deep (c_moneyness c)) (cal_data d)\<rparr>;
                  moneyness_filtered = length (cal_data d1);
                  p1 = p0\<lparr>conn := Some d1,
                         log := log p0 @ [InfoFiltered total_before moneyness_filtered]\<rparr>;
                  out = (case current_output p1 of None \<Rightarrow> ''None'' | Some f \<Rightarrow> f)
              in case copy_result env of
                   Some KeyboardInterrupt \<Rightarrow> (Inl KeyboardInterrupt, p1, w)
                 | Some (Exception m) \<Rightarrow> (Inr False, p1, w)
                 | None \<Rightarrow>
                     (Inr True, p1,
                      w\<lparr>fs := insert out (fs w),
                        exported := (exported w)(out \<mapsto> sort_key order_key (cal_data d1))\<rparr>))))"

section \<open>Cleanup and the run of one file\<close>

text \<open>
  \<open>cleanup\<close>: close the session, remove the scratch file unless it is to be kept, reset the
  per-file fields. An exception of \<open>os.remove\<close> is caught and logged as a warning.
\<close>

definition cleanup :: "file_env \<Rightarrow> processor \<Rightarrow> world \<Rightarrow> processor \<times> world" where
  "cleanup env p w =
     (let p1 = p\<lparr>conn := None\<rparr>;
          (p2, w2) =
            (case db_file p1 of
               None \<Rightarrow> (p1, w)
             | Some f \<Rightarrow>
                 if \<not> keep_temp p1 \<and> f \<noteq> [] \<and> f \<in> fs w
                 then (case remove_result env of
                         None \<Rightarrow> (p1, w\<lparr>fs := fs w - {f}\<rparr>)
                       | Some m \<Rightarrow> (p1\<lparr>log := log p1 @ [WarnNotRemoved m]\<rparr>, w))
                 else (p1, w))
      in (p2\<lparr>current_file := None, current_output := None, db_file := None,
             row_counts := Map.empty\<rparr>, w2))"

text \<open>Python's \<open>a and b\<close> on stage results: \<open>b\<close> runs only when \<open>a\<close> returned \<open>True\<close>.\<close>

definition and_also :: "stage_result \<Rightarrow> (processor \<Rightarrow> stage_result) \<Rightarrow> stage_result" where
  "and_also r f = (case r of (Inr True, p) \<Rightarrow> f p | _ \<Rightarrow> r)"

definition run_stages :: "file_env \<Rightarrow> processor \<Rightarrow> world \<Rightarrow> export_result" where
  "run_stages env p w =
     (case and_also (and_also (and_also (and_also (create_option_data env p)
              (create_index_data env)) (create_future_data env)) create_split_data)
              (create_cal_data env) of
        (Inr True, p5) \<Rightarrow> filter_and_export env p5 w
      | (r, p5) \<Rightarrow> (r, p5, w))"

text \<open>
  The \<open>try\<close> body of \<open>process_file\<close> with its \<open>except Exception\<close> branch. Connecting creates
  the scratch file.
\<close>

definition process_body :: "file_env \<Rightarrow> processor \<Rightarrow> string \<Rightarrow> string \<Rightarrow> world \<Rightarrow> export_result" where
  "process_body env p input_file output_file w =
     (let scratch = replace input_file ''.parquet'' ''.duckdb'';
          p0 = p\<lparr>current_file := Some input_file, current_output := Some output_file,
                 db_file := Some scratch\<rparr>
      in case connect_result env of
           Inl KeyboardInterrupt \<Rightarrow> (Inl KeyboardInterrupt, p0, w)
         | Inl (Exception m) \<Rightarrow>
             (Inr False, p0\<lparr>failed_files := failed_files p0 @ [(basename input_file, m)]\<rparr>, w)
         | Inr d \<Rightarrow> run_stages env (p0\<lparr>conn := Some d\<rparr>) (w\<lparr>fs := insert scratch (fs w)\<rparr>))"

text \<open>\<open>process_file\<close>: the body, then the \<open>finally\<close> clause.\<close>

definition process_file :: "file_env \<Rightarrow> processor \<Rightarrow> string \<Rightarrow> string \<Rightarrow> world \<Rightarrow> export_result" where
  "process_file env p input_file output_file w =
     (case process_body env p input_file output_file w of
        (r, p1, w1) \<Rightarrow> (case cleanup env p1 w1 of (p2, w2) \<Rightarrow> (r, p2, w2)))"

section \<open>The batch\<close>

text \<open>
  The parsed command line, and what the batch receives from outside: the result of
  \<open>glob.glob\<close> and the environment of each input file.
\<close>

record args =
  input_folder :: string
  output_folder :: string
  a_keep_temp :: bool
  a_validate :: bool
  file_pattern :: string

record batch_env =
  glob_result :: "exc + string list"
  file_envs :: "string \<Rightarrow> file_env"

record batch_state =
  b_processor :: processor
  b_world :: world
  file_count :: nat
  successful_count :: nat

text \<open>
  The \<open>for\<close> loop of \<open>main\<close>. An exception that leaves \<open>process_file\<close> ends the loop; the
  state it is returned with is the one the \<open>finally\<close> clause left.
\<close>

fun process_files :: "batch_env \<Rightarrow> args \<Rightarrow> string list \<Rightarrow> batch_state \<Rightarrow> exc option \<times> batch_state" where
  "process_files benv a [] b = (None, b)"
| "process_files benv a (input_file # rest) b =
     (let base_name = basename input_file;
          output_name = replace base_name ''.parquet'' ''_combined.parquet'';
          output_file = path_join (output_folder a) output_name
      in case process_file (file_envs benv input_file) (b_processor b) input_file output_file (b_world b) of
           (Inl e, p', w') \<Rightarrow>
             (Some e, b\<lparr>b_processor := p', b_world := w', file_count := file_count b + 1\<rparr>)
         | (Inr ok, p', w') \<Rightarrow>
             process_files benv a rest
               (b\<lparr>b_processor :=
                    (if ok then p' else p'\<lparr>log := log p' @ [ErrorFailed base_name]\<rparr>),
                  b_world := w', file_count := file_count b + 1,
                  successful_count := (if ok then successful_count b + 1 else successful_count b)\<rparr>))"

text \<open>The constructor \<open>DuckDBProcessor(validate, keep_temp)\<close>.\<close>

definition new_processor :: "bool \<Rightarrow> bool \<Rightarrow> processor" where
  "new_processor v k =
     \<lparr>validate = v, keep_temp = k, conn = None, current_file = None, current_output = None,
      db_file = None, row_counts = Map.empty, failed_files = [], log = []\<rparr>"

text \<open>\<open>main\<close> from its \<open>try\<close> on: the exit code and the final state.\<close>

definition main :: "batch_env \<Rightarrow> args \<Rightarrow> world \<Rightarrow> int \<times> batch_state" where
  "main benv a w =
     (let b = \<lparr>b_processor = new_processor (a_validate a) (a_keep_temp a), b_world = w,
               file_count = 0, successful_count = 0\<rparr>
      in case glob_result benv of
           Inl KeyboardInterrupt \<Rightarrow> (130, b)
         | Inl (Exception m) \<Rightarrow> (1, b)
         | Inr input_files \<Rightarrow>
             if input_files = [] then (1, b)
             else
               (case process_files benv a input_files b of
                  (Some KeyboardInterrupt, b') \<Rightarrow> (130, b')
                | (Some (Exception m), b') \<Rightarrow> (1, b')
                | (None, b') \<Rightarrow> (0, b')))"


section \<open>Projections and example inputs\<close>

text \<open>The nine base columns of a row of \<open>cal_data\<close>, and the same columns of a row of \<open>options\<close>.\<close>

definition base_columns :: "cal_row \<Rightarrow> string option \<times> int option list" where
  "base_columns c =
     (c_symbol c, [c_date c, c_time c, c_open c, c_high c, c_low c, c_close c, c_volume c, c_oi c])"

definition option_columns :: "option_row \<Rightarrow> string option \<times> int option list" where
  "option_columns r =
     (o_symbol r, [o_date r, o_time r, o_open r, o_high r, o_low r, o_close r, o_volume r, o_oi r])"

text \<open>A row of \<open>options\<close> for a symbol on a trade date, at 09:15:00 with all prices 100.\<close>

definition option_at :: "string \<Rightarrow> int \<Rightarrow> option_row" where
  "option_at s d =
     \<lparr>o_symbol = Some s, o_date = Some d, o_time = Some 33300000000, o_open = Some 100,
      o_high = Some 100, o_low = Some 100, o_close = Some 100, o_volume = Some 100,
      o_oi = Some 100\<rparr>"

definition empty_db :: db where
  "empty_db = \<lparr>options = [], index_data = [], future_data = [], splits = [], cal_data = []\<rparr>"

text \<open>A processor in the middle of a file, with the session \<open>d\<close> open.\<close>

definition processor_on :: "bool \<Rightarrow> db \<Rightarrow> processor" where
  "processor_on v d =
     (new_processor v False)\<lparr>conn := Some d, current_file := Some ''/in/day.parquet'',
        current_output := Some ''/out/day_combined.parquet'', db_file := Some ''/in/day.duckdb''\<rparr>"

text \<open>A scratch database with three rows of \<open>options\<close>.\<close>

definition three_options :: db where
  "three_options = empty_db\<lparr>options := [option_at ''NIFTY25JAN2421500CE'' 19730,
      option_at ''NIFTY25JAN2421500PE'' 19730, option_at ''NIFTY25JAN2421550CE'' 19730]\<rparr>"

text \<open>
  An environment in which nothing raises: an empty new scratch database, no rows read,
  the first matching row picked.
\<close>

definition quiet_env :: file_env where
  "quiet_env =
     \<lparr>connect_result = Inr empty_db, read_options = Inr [], read_index = Inr [],
      read_future = Inr [], pick_split = hd, pick_index = hd, pick_future = hd,
      copy_result = None, remove_result = None\<rparr>"

definition empty_world :: world where
  "empty_world = \<lparr>fs = {}, exported = Map.empty\<rparr>"

text \<open>A row of \<open>cal_data\<close> for a symbol with a given bucket, and a relation of three such rows.\<close>

definition cal_at :: "string \<Rightarrow> string option \<Rightarrow> cal_row" where
  "cal_at s m = (seed_row (option_at s 19730))\<lparr>c_moneyness := m\<rparr>"

definition three_buckets :: db where
  "three_buckets = empty_db\<lparr>cal_data := [cal_at ''NIFTY25JAN2420000CE'' (Some ''DEEPITM''),
      cal_at ''NIFTY25JAN2421500CE'' (Some ''ATM''), cal_at ''BANKNIFTY25JAN24CE'' None]\<rparr>"

text \<open>
  The candidate rows of step 4, and the pair (symbol, trade date) of a row of \<open>options\<close>
  and of a row of \<open>splits\<close>.
\<close>

definition candidates :: "option_row list \<Rightarrow> option_row list" where
  "candidates opts = filter (\<lambda>r. like_nifty (o_symbol r)) opts"

definition option_key :: "option_row \<Rightarrow> string option \<times> int option" where
  "option_key r = (o_symbol r, o_date r)"

definition split_key :: "split_row \<Rightarrow> string option \<times> int option" where
  "split_key r = (s_symbol r, s_date r)"

text \<open>
  One option symbol traded on ten consecutive days, and the same relation with one more
  row whose symbol starts with \<open>NIFTY\<close> and ends in \<open>CE\<close> but has no strike digits.
\<close>

definition ten_days :: db where
  "ten_days = empty_db\<lparr>options := map (option_at ''NIFTY25JAN2421500CE'') [19730 .. 19739]\<rparr>"

definition ten_days_and_stray :: db where
  "ten_days_and_stray = ten_days\<lparr>options := options ten_days @ [option_at ''NIFTY25JAN24CE'' 19730]\<rparr>"

text \<open>
  The state in which \<open>cleanup\<close> leaves the processor: no session and no per-file field.
\<close>

definition closed :: "processor \<Rightarrow> bool" where
  "closed p \<longleftrightarrow>
     conn p = None \<and> current_file p = None \<and> current_output p = None \<and> db_file p = None
     \<and> row_counts p = Map.empty"

text \<open>An environment of a file in which no call is interrupted by the user.\<close>

definition no_interrupt :: "file_env \<Rightarrow> bool" where
  "no_interrupt env \<longleftrightarrow>
     connect_result env \<noteq> Inl KeyboardInterrupt \<and> read_options env \<noteq> Inl KeyboardInterrupt
     \<and> read_index env \<noteq> Inl KeyboardInterrupt \<and> read_future env \<noteq> Inl KeyboardInterrupt
     \<and> copy_result env \<noteq> Some KeyboardInterrupt"

text \<open>
  Environments in which the scratch file cannot be removed, the read of step 1 is
  interrupted, and the connection fails.
\<close>

definition locked_env :: file_env where
  "locked_env = quiet_env\<lparr>remove_result := Some ''PermissionError''\<rparr>"

definition interrupted_env :: file_env where
  "interrupted_env = quiet_env\<lparr>read_options := Inl KeyboardInterrupt\<rparr>"

definition broken_env :: file_env where
  "broken_env = quiet_env\<lparr>connect_result := Inl (Exception ''IO Error'')\<rparr>"

text \<open>A command line, and batches over the files \<open>a\<close>, \<open>b\<close> and \<open>c\<close> of the input folder.\<close>

definition example_args :: "bool \<Rightarrow> args" where
  "example_args v =
     \<lparr>input_folder = ''/in'', output_folder = ''/out'', a_keep_temp = False, a_validate = v,
      file_pattern = ''*.parquet''\<rparr>"

definition example_batch :: "(string \<Rightarrow> file_env) \<Rightarrow> batch_env" where
  "example_batch envs =
     \<lparr>glob_result = Inr [''/in/a.parquet'', ''/in/b.parquet'', ''/in/c.parquet''],
      file_envs = envs\<rparr>"

section \<open>Properties of the moneyness classifier\<close>

lemma labels_eq:
  "labels =
    [''ATM-10'', ''ATM-9'', ''ATM-8'', ''ATM-7'', ''ATM-6'', ''ATM-5'', ''ATM-4'', ''ATM-3'',
     ''ATM-2'', ''ATM-1'', ''ATM'', ''ATM+1'', ''ATM+2'', ''ATM+3'', ''ATM+4'', ''ATM+5'',
     ''ATM+6'', ''ATM+7'', ''ATM+8'', ''ATM+9'', ''ATM+10'', ''DEEPITM'', ''DEEPOTM'']"
  by code_simp

lemma moneyness_CE_label: "moneyness_CE d \<in> Some ` set labels"
  unfolding labels_eq moneyness_CE_def between_def by simp

lemma moneyness_PE_label: "moneyness_PE d \<in> Some ` set labels"
  unfolding labels_eq moneyness_PE_def between_def by simp

lemma moneyness_CE_PE_plus_minus:
  "(moneyness_CE d = Some (atm_plus k)) = (moneyness_PE d = Some (atm_minus k))"
  unfolding moneyness_CE_def moneyness_PE_def between_def atm_plus_def atm_minus_def by simp

lemma moneyness_CE_PE_minus_plus:
  "(moneyness_CE d = Some (atm_minus k)) = (moneyness_PE d = Some (atm_plus k))"
  unfolding moneyness_CE_def moneyness_PE_def between_def atm_plus_def atm_minus_def by simp

lemma moneyness_CE_PE_centre:
  "(moneyness_CE d = Some ''ATM'') = (moneyness_PE d = Some ''ATM'')"
  unfolding moneyness_CE_def moneyness_PE_def between_def by simp

lemma moneyness_CE_deep:
  "(moneyness_CE d = Some ''DEEPITM'') = (d \<le> - 501)" "(moneyness_CE d = Some ''DEEPOTM'') = (551 \<le> d)"
  unfolding moneyness_CE_def between_def by simp_all

lemma moneyness_PE_deep:
  "(moneyness_PE d = Some ''DEEPOTM'') = (d \<le> - 501)" "(moneyness_PE d = Some ''DEEPITM'') = (551 \<le> d)"
  unfolding moneyness_PE_def between_def by simp_all

lemma moneyness_CE_simp [simp]: "moneyness (Some ''CE'') (Some d) = moneyness_CE d"
  by (simp add: moneyness_def)

lemma moneyness_PE_simp [simp]: "moneyness (Some ''PE'') (Some d) = moneyness_PE d"
  by (simp add: moneyness_def)

text \<open>
  C1 (as amended). The bucket of a row is a function of its option type and its
  strike-distance alone. At the boundary values: a CE row at distance 0 gets \<open>ATM-1\<close>,
  because 0 lies in the band from -50 to 0 as well as in the band from 0 to 50 and the
  first band of the source wins (a PE row at 0 gets \<open>ATM+1\<close> likewise); CE at -501 gets
  \<open>DEEPITM\<close> and at 551 \<open>DEEPOTM\<close>; PE at -501 gets \<open>DEEPOTM\<close> and at 551 \<open>DEEPITM\<close>.
\<close>

theorem moneyness_boundary_values:
  "moneyness (Some ''CE'') (Some 0) = Some ''ATM-1''
   \<and> moneyness (Some ''CE'') (Some (- 501)) = Some ''DEEPITM''
   \<and> moneyness (Some ''CE'') (Some 551) = Some ''DEEPOTM''
   \<and> moneyness (Some ''PE'') (Some (- 501)) = Some ''DEEPOTM''
   \<and> moneyness (Some ''PE'') (Some 551) = Some ''DEEPITM''
   \<and> moneyness (Some ''PE'') (Some 0) = Some ''ATM+1''
   \<and> between 0 (- 50) 0 \<and> between 0 0 50
   \<and> c_moneyness (classify c) = moneyness (c_option_type c) (c_strdifference c)"
  by (simp add: moneyness_CE_def moneyness_PE_def between_def classify_def)

text \<open>
  C1 as stated fails: a CE row at strike-distance 0 is not labelled \<open>ATM\<close>.
\<close>

theorem moneyness_CE_zero_not_ATM:
  "moneyness (Some ''CE'') (Some 0) \<noteq> Some ''ATM''"
  by (simp add: moneyness_CE_def between_def)

text \<open>
  C4. At a strike-distance \<open>d\<close> that is not labelled at an extreme, a CE row gets \<open>ATM+k\<close>
  exactly when a PE row at \<open>d\<close> gets \<open>ATM-k\<close>, it gets \<open>ATM-k\<close> exactly when the PE row gets
  \<open>ATM+k\<close>, and \<open>ATM\<close> exactly when the PE row does. At the extremes the labels swap their
  sense instead: for \<open>d \<le> -501\<close> (and only there) CE is \<open>DEEPITM\<close> and PE is \<open>DEEPOTM\<close>,
  for \<open>d \<ge> 551\<close> (and only there) CE is \<open>DEEPOTM\<close> and PE is \<open>DEEPITM\<close>.
\<close>

theorem moneyness_mirror:
  "(moneyness (Some ''CE'') (Some d) \<noteq> Some ''DEEPITM''
      \<and> moneyness (Some ''CE'') (Some d) \<noteq> Some ''DEEPOTM'' \<longrightarrow>
      (moneyness (Some ''CE'') (Some d) = Some (atm_plus k))
        = (moneyness (Some ''PE'') (Some d) = Some (atm_minus k))
      \<and> (moneyness (Some ''CE'') (Some d) = Some (atm_minus k))
        = (moneyness (Some ''PE'') (Some d) = Some (atm_plus k))
      \<and> (moneyness (Some ''CE'') (Some d) = Some ''ATM'')
        = (moneyness (Some ''PE'') (Some d) = Some ''ATM''))
   \<and> (moneyness (Some ''CE'') (Some d) = Some ''DEEPITM'') = (d \<le> - 501)
   \<and> (moneyness (Some ''PE'') (Some d) = Some ''DEEPOTM'') = (d \<le> - 501)
   \<and> (moneyness (Some ''CE'') (Some d) = Some ''DEEPOTM'') = (551 \<le> d)
   \<and> (moneyness (Some ''PE'') (Some d) = Some ''DEEPITM'') = (551 \<le> d)"
  using moneyness_CE_PE_plus_minus [of d k] moneyness_CE_PE_minus_plus [of d k]
    moneyness_CE_PE_centre [of d] moneyness_CE_deep [of d] moneyness_PE_deep [of d]
  by simp

text \<open>The mirror at distances 75 and -75, and the swap at -600.\<close>

theorem moneyness_mirror_witness:
  "moneyness (Some ''CE'') (Some 75) = Some (atm_plus 1)
   \<and> moneyness (Some ''PE'') (Some 75) = Some (atm_minus 1)
   \<and> moneyness (Some ''CE'') (Some (- 75)) = Some (atm_minus 2)
   \<and> moneyness (Some ''PE'') (Some (- 75)) = Some (atm_plus 2)
   \<and> moneyness (Some ''CE'') (Some (- 600)) = Some ''DEEPITM''
   \<and> moneyness (Some ''PE'') (Some (- 600)) = Some ''DEEPOTM''"
proof -
  have l: "atm_plus 1 = ''ATM+1''" "atm_minus 2 = ''ATM-2''"
    by code_simp+
  have a: "moneyness (Some ''CE'') (Some 75) = Some (atm_plus 1)"
    and b: "moneyness (Some ''CE'') (Some (- 75)) = Some (atm_minus 2)"
    unfolding l by (simp_all add: moneyness_CE_def between_def)
  have n: "moneyness (Some ''CE'') (Some 75) \<noteq> Some ''DEEPITM''"
    "moneyness (Some ''CE'') (Some 75) \<noteq> Some ''DEEPOTM''"
    "moneyness (Some ''CE'') (Some (- 75)) \<noteq> Some ''DEEPITM''"
    "moneyness (Some ''CE'') (Some (- 75)) \<noteq> Some ''DEEPOTM''"
    by (simp_all add: moneyness_CE_def between_def)
  show ?thesis
    using a b n moneyness_mirror [of 75 1] moneyness_mirror [of "- 75" 2] moneyness_mirror [of "- 600" 0]
    by simp
qed

text \<open>
  C8. The bucket is NULL exactly when the strike-distance is NULL or the option type is
  neither \<open>CE\<close> nor \<open>PE\<close> (a NULL option type included); every other row gets one of
  the 23 labels, so the bands leave no integer distance uncovered.
\<close>

theorem moneyness_null_iff:
  "(moneyness ot sd = None) = (sd = None \<or> (ot \<noteq> Some ''CE'' \<and> ot \<noteq> Some ''PE''))
   \<and> (moneyness ot sd \<noteq> None \<longrightarrow> moneyness ot sd \<in> Some ` set labels)
   \<and> length labels = 23 \<and> distinct labels"
proof -
  have l: "length labels = 23 \<and> distinct labels"
    unfolding labels_eq by simp
  have ce: "moneyness_CE d \<noteq> None" and pe: "moneyness_PE d \<noteq> None" for d
    using moneyness_CE_label [of d] moneyness_PE_label [of d] by auto
  have n: "(moneyness ot sd = None) = (sd = None \<or> (ot \<noteq> Some ''CE'' \<and> ot \<noteq> Some ''PE''))"
    using ce pe by (auto simp: moneyness_def split: option.splits)
  have m: "moneyness ot sd \<noteq> None \<longrightarrow> moneyness ot sd \<in> Some ` set labels"
    using moneyness_CE_label moneyness_PE_label
    by (auto simp: moneyness_def split: option.splits if_splits)
  show ?thesis using l n m by blast
qed

text \<open>A labelled row, and the three ways to a NULL bucket.\<close>

theorem moneyness_null_iff_witness:
  "moneyness (Some ''CE'') (Some 75) \<in> Some ` set labels
   \<and> moneyness (Some ''XX'') (Some 75) = None
   \<and> moneyness (Some ''PE'') None = None
   \<and> moneyness None (Some 75) = None"
  using moneyness_null_iff [of "Some ''CE''" "Some 75"] moneyness_null_iff [of "Some ''XX''" "Some 75"]
    moneyness_null_iff [of "Some ''PE''" None] moneyness_null_iff [of None "Some 75"]
  by simp


section \<open>Properties of the validation gate\<close>

lemma validate_data_cases:
  "validate_data p t m = (b, p') \<Longrightarrow> p' = p \<or> (\<exists>n. p' = p\<lparr>row_counts := (row_counts p)(t \<mapsto> n)\<rparr>)"
  by (auto simp: validate_data_def Let_def split: if_splits option.splits)

lemma validate_data_fields:
  assumes "validate_data p t m = (b, p')"
  shows "conn p' = conn p" "validate p' = validate p" "keep_temp p' = keep_temp p"
    "log p' = log p" "current_output p' = current_output p" "current_file p' = current_file p"
    "db_file p' = db_file p" "failed_files p' = failed_files p"
  using validate_data_cases [OF assms] by auto

lemma validate_data_off: "\<not> validate p \<Longrightarrow> validate_data p t m = (True, p)"
  by (simp add: validate_data_def)

text \<open>
  C7. With validation on, the gate returns true exactly when the session holds a
  relation of that name whose row count is at least the threshold; whenever the relation
  exists its observed count is recorded in the ledger (also when the count is too low),
  and nothing else of the processor changes; for a name that is no relation the
  processor is unchanged. With validation off the gate returns true and leaves the
  processor, its ledger included, as it was, for every name and threshold.
\<close>

theorem validate_data_gate:
  "(validate p \<longrightarrow>
      fst (validate_data p t m) = (\<exists>d n. conn p = Some d \<and> table_rows d t = Some n \<and> m \<le> int n)
      \<and> (\<forall>d n. conn p = Some d \<and> table_rows d t = Some n \<longrightarrow>
            snd (validate_data p t m) = p\<lparr>row_counts := (row_counts p)(t \<mapsto> n)\<rparr>)
      \<and> ((\<forall>d. conn p = Some d \<longrightarrow> table_rows d t = None) \<longrightarrow> snd (validate_data p t m) = p))
   \<and> (\<not> validate p \<longrightarrow> validate_data p t m = (True, p))"
  by (auto simp: validate_data_def Let_def split: option.splits)

text \<open>
  The gate on a relation of three rows with thresholds 3 and 4, on a name that is no
  relation, and with validation off.
\<close>

theorem validate_data_gate_witness:
  "fst (validate_data (processor_on True three_options) ''options'' 3)
   \<and> row_counts (snd (validate_data (processor_on True three_options) ''options'' 3)) ''options'' = Some 3
   \<and> \<not> fst (validate_data (processor_on True three_options) ''options'' 4)
   \<and> row_counts (snd (validate_data (processor_on True three_options) ''options'' 4)) ''options'' = Some 3
   \<and> \<not> fst (validate_data (processor_on True three_options) ''no_such_table'' 0)
   \<and> row_counts (snd (validate_data (processor_on True three_options) ''no_such_table'' 0)) = Map.empty
   \<and> validate_data (processor_on False three_options) ''no_such_table'' 4
       = (True, processor_on False three_options)"
proof -
  let ?p = "processor_on True three_options"
  have v: "validate ?p" "conn ?p = Some three_options" "row_counts ?p = Map.empty"
    "\<not> validate (processor_on False three_options)"
    by (simp_all add: processor_on_def new_processor_def)
  have t: "table_rows three_options ''options'' = Some 3"
    "table_rows three_options ''no_such_table'' = None"
    by (simp_all add: table_rows_def three_options_def empty_db_def)
  show ?thesis
    using v t validate_data_gate [of ?p "''options''" 3] validate_data_gate [of ?p "''options''" 4]
      validate_data_gate [of ?p "''no_such_table''" 0]
      validate_data_gate [of "processor_on False three_options" "''no_such_table''" 4]
    by simp
qed

section \<open>The frame of the three back-fill updates\<close>

lemma base_columns_seed: "base_columns (seed_row r) = option_columns r"
  by (simp add: base_columns_def option_columns_def seed_row_def)

lemma update_from_splits_targets:
  "\<exists>a b e f. update_from_splits pick src c
     = c\<lparr>c_instrument := a, c_expiry_date := b, c_strike_price := e, c_option_type := f\<rparr>"
proof (cases "filter (\<lambda>s. sql_eq (c_symbol c) (s_symbol s)) src")
  case Nil
  then have "update_from_splits pick src c
      = c\<lparr>c_instrument := c_instrument c, c_expiry_date := c_expiry_date c,
          c_strike_price := c_strike_price c, c_option_type := c_option_type c\<rparr>"
    by (simp add: update_from_splits_def)
  then show ?thesis by blast
next
  case (Cons m ms)
  then show ?thesis
    by (simp add: update_from_splits_def Let_def) blast
qed

lemma update_from_index_targets:
  "\<exists>a b e f g. update_from_index pick src c
     = c\<lparr>c_idx_open := a, c_idx_high := b, c_idx_low := e, c_idx_close := f, c_spot := g\<rparr>"
proof (cases "filter (\<lambda>i. sql_eq (c_date c) (i_date i) \<and> sql_eq (c_time c) (i_time i)) src")
  case Nil
  then have "update_from_index pick src c
      = c\<lparr>c_idx_open := c_idx_open c, c_idx_high := c_idx_high c, c_idx_low := c_idx_low c,
          c_idx_close := c_idx_close c, c_spot := c_spot c\<rparr>"
    by (simp add: update_from_index_def)
  then show ?thesis by blast
next
  case (Cons m ms)
  then show ?thesis
    by (simp add: update_from_index_def Let_def) blast
qed

lemma update_from_future_targets:
  "\<exists>a b e f g h. update_from_future pick src c
     = c\<lparr>c_fut_open := a, c_fut_high := b, c_fut_low := e, c_fut_close := f,
         c_fut_volume := g, c_fut_oi := h\<rparr>"
proof (cases "filter (\<lambda>f. sql_eq (c_date c) (f_date f) \<and> sql_eq (c_time c) (f_time f)) src")
  case Nil
  then have "update_from_future pick src c
      = c\<lparr>c_fut_open := c_fut_open c, c_fut_high := c_fut_high c, c_fut_low := c_fut_low c,
          c_fut_close := c_fut_close c, c_fut_volume := c_fut_volume c, c_fut_oi := c_fut_oi c\<rparr>"
    by (simp add: update_from_future_def)
  then show ?thesis by blast
next
  case (Cons m ms)
  then show ?thesis
    by (simp add: update_from_future_def Let_def) blast
qed

lemma base_columns_splits [simp]: "base_columns (update_from_splits pick src c) = base_columns c"
  using update_from_splits_targets [of pick src c] by (auto simp: base_columns_def)

lemma base_columns_index [simp]: "base_columns (update_from_index pick src c) = base_columns c"
  using update_from_index_targets [of pick src c] by (auto simp: base_columns_def)

lemma base_columns_future [simp]: "base_columns (update_from_future pick src c) = base_columns c"
  using update_from_future_targets [of pick src c] by (auto simp: base_columns_def)

text \<open>
  C10. After steps 5.2, 5.3 and 5.4 every row of \<open>cal_data\<close> has, position by position, the
  nine base columns it had right after the seed copy of step 5.1, and a seeded row has them
  from its row of \<open>options\<close>; no row is added or dropped. Each update is the row with (at
  most) its own target columns replaced: instrument, expiry date, strike and type for
  \<open>splits\<close>; the four \<open>idx_\<close> columns and \<open>spot\<close> for \<open>index_data\<close>; the six \<open>fut_\<close> columns for
  \<open>future_data\<close>. This holds whichever matching row the engine picks.
\<close>

theorem enrich_keeps_base_columns:
  "map base_columns (enrich env d)
     = map base_columns (cal_data d @ map seed_row (options d))
   \<and> map base_columns (map seed_row (options d)) = map option_columns (options d)
   \<and> length (enrich env d) = length (cal_data d) + length (options d)
   \<and> (\<exists>a b e f. update_from_splits ps ss c
        = c\<lparr>c_instrument := a, c_expiry_date := b, c_strike_price := e, c_option_type := f\<rparr>)
   \<and> (\<exists>a b e f g. update_from_index pi si c
        = c\<lparr>c_idx_open := a, c_idx_high := b, c_idx_low := e, c_idx_close := f, c_spot := g\<rparr>)
   \<and> (\<exists>a b e f g h. update_from_future pf sf c
        = c\<lparr>c_fut_open := a, c_fut_high := b, c_fut_low := e, c_fut_close := f,
            c_fut_volume := g, c_fut_oi := h\<rparr>)"
  using update_from_splits_targets [of ps ss c] update_from_index_targets [of pi si c]
    update_from_future_targets [of pf sf c]
  by (simp add: enrich_def comp_def base_columns_seed)

section \<open>Properties of the exporter\<close>

lemma filter_and_export_success:
  assumes "filter_and_export env p w = (Inr True, p', w')"
  shows "\<exists>d. conn p = Some d
     \<and> conn p' = Some (d\<lparr>cal_data := filter (\<lambda>c. \<not> is_deep (c_moneyness c)) (cal_data d)\<rparr>)
     \<and> exported w' (case current_output p of None \<Rightarrow> ''None'' | Some f \<Rightarrow> f)
         = Some (sort_key order_key (filter (\<lambda>c. \<not> is_deep (c_moneyness c)) (cal_data d)))
     \<and> log p' = log p @ [InfoFiltered (length (cal_data d))
           (length (filter (\<lambda>c. \<not> is_deep (c_moneyness c)) (cal_data d)))]"
proof -
  obtain ready p0 where v: "validate_data p ''cal_data'' 1 = (ready, p0)"
    by (cases "validate_data p ''cal_data'' 1")
  note f = validate_data_fields [OF v]
  from assms v show ?thesis
    by (auto simp: filter_and_export_def Let_def f split: if_splits option.splits exc.splits)
qed

lemma length_filter_deep:
  "length (filter (\<lambda>c. \<not> is_deep (c_moneyness c)) rows)
     = length rows - length (filter (\<lambda>c. is_deep (c_moneyness c)) rows)"
  using sum_length_filter_compl [of "\<lambda>c. is_deep (c_moneyness c)" rows] by simp

text \<open>
  C5. When \<open>filter_and_export\<close> returns true, the artifact written to the output path is
  the remaining rows of \<open>cal_data\<close> in the order of (date, time, symbol), none of them
  labelled \<open>DEEPITM\<close> or \<open>DEEPOTM\<close>; the row count after the deletion, which is also the
  number of exported rows and the second count that is logged, is the row count before
  minus the number of rows that carried one of the two labels.
\<close>

theorem export_without_deep_rows:
  "filter_and_export env p w = (Inr True, p', w') \<longrightarrow>
     (\<exists>d d' rows.
        conn p = Some d \<and> conn p' = Some d'
        \<and> exported w' (case current_output p of None \<Rightarrow> ''None'' | Some f \<Rightarrow> f) = Some rows
        \<and> (\<forall>c \<in> set rows. c_moneyness c \<noteq> Some ''DEEPITM'' \<and> c_moneyness c \<noteq> Some ''DEEPOTM'')
        \<and> mset rows = mset (cal_data d')
        \<and> sorted (map order_key rows)
        \<and> length rows = length (cal_data d')
        \<and> length (cal_data d')
            = length (cal_data d)
              - length (filter (\<lambda>c. c_moneyness c = Some ''DEEPITM'' \<or> c_moneyness c = Some ''DEEPOTM'')
                  (cal_data d))
        \<and> log p' = log p @ [InfoFiltered (length (cal_data d)) (length (cal_data d'))])"
proof
  assume a: "filter_and_export env p w = (Inr True, p', w')"
  from filter_and_export_success [OF a] obtain d where
    d: "conn p = Some d"
      "conn p' = Some (d\<lparr>cal_data := filter (\<lambda>c. \<not> is_deep (c_moneyness c)) (cal_data d)\<rparr>)"
      "exported w' (case current_output p of None \<Rightarrow> ''None'' | Some f \<Rightarrow> f)
         = Some (sort_key order_key (filter (\<lambda>c. \<not> is_deep (c_moneyness c)) (cal_data d)))"
      "log p' = log p @ [InfoFiltered (length (cal_data d))
           (length (filter (\<lambda>c. \<not> is_deep (c_moneyness c)) (cal_data d)))]"
    by blast
  let ?kept = "filter (\<lambda>c. \<not> is_deep (c_moneyness c)) (cal_data d)"
  have 1: "\<forall>c \<in> set (sort_key order_key ?kept).
      c_moneyness c \<noteq> Some ''DEEPITM'' \<and> c_moneyness c \<noteq> Some ''DEEPOTM''"
    by (auto simp: is_deep_def)
  have 2: "length ?kept = length (cal_data d)
      - length (filter (\<lambda>c. c_moneyness c = Some ''DEEPITM'' \<or> c_moneyness c = Some ''DEEPOTM'') (cal_data d))"
    using length_filter_deep [of "cal_data d"] by (simp add: is_deep_def)
  show "\<exists>d d' rows.
        conn p = Some d \<and> conn p' = Some d'
        \<and> exported w' (case current_output p of None \<Rightarrow> ''None'' | Some f \<Rightarrow> f) = Some rows
        \<and> (\<forall>c \<in> set rows. c_moneyness c \<noteq> Some ''DEEPITM'' \<and> c_moneyness c \<noteq> Some ''DEEPOTM'')
        \<and> mset rows = mset (cal_data d')
        \<and> sorted (map order_key rows)
        \<and> length rows = length (cal_data d')
        \<and> length (cal_data d')
            = length (cal_data d)
              - length (filter (\<lambda>c. c_moneyness c = Some ''DEEPITM'' \<or> c_moneyness c = Some ''DEEPOTM'')
                  (cal_data d))
        \<and> log p' = log p @ [InfoFiltered (length (cal_data d)) (length (cal_data d'))]"
    apply (rule exI [of _ d])
    apply (rule exI [of _ "d\<lparr>cal_data := ?kept\<rparr>"])
    apply (rule exI [of _ "sort_key order_key ?kept"])
    using d 1 2 by simp
qed

text \<open>Three rows labelled \<open>DEEPITM\<close>, \<open>ATM\<close> and NULL: two rows are exported.\<close>

theorem export_without_deep_rows_witness:
  "fst (filter_and_export quiet_env (processor_on True three_buckets) empty_world) = Inr True
   \<and> (\<exists>rows. exported (snd (snd (filter_and_export quiet_env (processor_on True three_buckets) empty_world)))
          ''/out/day_combined.parquet'' = Some rows
        \<and> length rows = 2
        \<and> list_all (\<lambda>c. c_moneyness c \<noteq> Some ''DEEPITM'' \<and> c_moneyness c \<noteq> Some ''DEEPOTM'') rows)"
proof -
  let ?p = "processor_on True three_buckets"
  let ?X = "filter_and_export quiet_env ?p empty_world"
  have r: "fst ?X = Inr True"
    by (simp add: filter_and_export_def validate_data_def processor_on_def new_processor_def
        table_rows_def three_buckets_def empty_db_def quiet_env_def Let_def)
  then have x: "?X = (Inr True, fst (snd ?X), snd (snd ?X))"
    by (metis prod.collapse)
  have c: "conn ?p = Some three_buckets" "current_output ?p = Some ''/out/day_combined.parquet''"
    by (simp_all add: processor_on_def new_processor_def)
  have n: "length (cal_data three_buckets) = 3"
    "length (filter (\<lambda>c. c_moneyness c = Some ''DEEPITM'' \<or> c_moneyness c = Some ''DEEPOTM'')
        (cal_data three_buckets)) = 1"
    by (simp_all add: three_buckets_def empty_db_def cal_at_def)
  from mp [OF export_without_deep_rows [of quiet_env ?p empty_world "fst (snd ?X)" "snd (snd ?X)"] x]
  obtain d d' rows where
    h: "conn ?p = Some d \<and> conn (fst (snd ?X)) = Some d'
      \<and> exported (snd (snd ?X)) (case current_output ?p of None \<Rightarrow> ''None'' | Some f \<Rightarrow> f) = Some rows
      \<and> (\<forall>c \<in> set rows. c_moneyness c \<noteq> Some ''DEEPITM'' \<and> c_moneyness c \<noteq> Some ''DEEPOTM'')
      \<and> mset rows = mset (cal_data d')
      \<and> sorted (map order_key rows)
      \<and> length rows = length (cal_data d')
      \<and> length (cal_data d') = length (cal_data d)
          - length (filter (\<lambda>c. c_moneyness c = Some ''DEEPITM'' \<or> c_moneyness c = Some ''DEEPOTM'')
              (cal_data d))
      \<and> log (fst (snd ?X)) = log ?p @ [InfoFiltered (length (cal_data d)) (length (cal_data d'))]"
    by (elim exE) (rule that)
  from h c(1) have "d = three_buckets" by simp
  with h n c(2) have "exported (snd (snd ?X)) ''/out/day_combined.parquet'' = Some rows
      \<and> length rows = 2
      \<and> list_all (\<lambda>c. c_moneyness c \<noteq> Some ''DEEPITM'' \<and> c_moneyness c \<noteq> Some ''DEEPOTM'') rows"
    by (simp add: list_all_iff)
  with r show ?thesis by blast
qed

section \<open>Properties of the symbol decomposer\<close>

lemma sequence_Inr_D: "sequence xs = Inr ys \<Longrightarrow> xs = map Inr ys"
proof (induction xs arbitrary: ys)
  case Nil
  then show ?case by simp
next
  case (Cons x xs)
  then show ?case by (auto split: sum.splits)
qed

lemma sequence_map_Inr:
  assumes "sequence (map f xs) = Inr ys"
  shows "length ys = length xs" and "\<And>i. i < length xs \<Longrightarrow> f (xs ! i) = Inr (ys ! i)"
proof -
  from sequence_Inr_D [OF assms] have m: "map f xs = map Inr ys" .
  then show l: "length ys = length xs" by (metis length_map)
  fix i assume "i < length xs"
  with m l show "f (xs ! i) = Inr (ys ! i)" by (metis nth_map)
qed

lemma sequence_Inl: "sequence xs = Inl e \<Longrightarrow> Inl e \<in> set xs"
proof (induction xs)
  case Nil
  then show ?case by simp
next
  case (Cons x xs)
  then show ?case by (cases x) (auto split: sum.splits)
qed

lemma sequence_has_Inl: "Inl e \<in> set xs \<Longrightarrow> \<exists>e'. sequence xs = Inl e'"
proof (induction xs)
  case Nil
  then show ?case by simp
next
  case (Cons x xs)
  then show ?case by (cases x) (auto split: sum.splits)
qed

lemma sequence_map_keys:
  assumes "sequence (map f xs) = Inr ys"
    and "\<And>x y. x \<in> set xs \<Longrightarrow> f x = Inr y \<Longrightarrow> h y = g x"
  shows "map h ys = map g xs"
proof (rule nth_equalityI)
  show "length (map h ys) = length (map g xs)"
    using sequence_map_Inr(1) [OF assms(1)] by simp
next
  fix i assume "i < length (map h ys)"
  then have i: "i < length xs"
    using sequence_map_Inr(1) [OF assms(1)] by simp
  then have "f (xs ! i) = Inr (ys ! i)"
    by (rule sequence_map_Inr(2) [OF assms(1)])
  with i have "h (ys ! i) = g (xs ! i)"
    using assms(2) by simp
  with i show "map h ys ! i = map g xs ! i"
    using sequence_map_Inr(1) [OF assms(1)] by simp
qed

lemma sequence_map_origin:
  assumes "sequence (map f xs) = Inr ys" and "y \<in> set ys"
  shows "\<exists>x \<in> set xs. f x = Inr y"
proof -
  from assms(2) obtain i where i: "i < length ys" "ys ! i = y"
    by (auto simp: in_set_conv_nth)
  then have "i < length xs"
    using sequence_map_Inr(1) [OF assms(1)] by simp
  then have "f (xs ! i) = Inr (ys ! i)" "xs ! i \<in> set xs"
    using sequence_map_Inr(2) [OF assms(1)] by simp_all
  with i show ?thesis by blast
qed

lemma sequence_map_image:
  assumes "sequence (map f xs) = Inr ys" and "x \<in> set xs"
  shows "\<exists>y \<in> set ys. f x = Inr y"
proof -
  from assms(2) obtain i where i: "i < length xs" "xs ! i = x"
    by (auto simp: in_set_conv_nth)
  then have "f (xs ! i) = Inr (ys ! i)" "ys ! i \<in> set ys"
    using sequence_map_Inr(2) [OF assms(1), of i] sequence_map_Inr(1) [OF assms(1)] by simp_all
  with i show ?thesis by blast
qed

lemma cast_integer_empty: "cast_integer [] = Inl (Exception ''Conversion Error'')"
  by (simp add: cast_integer_def)

lemma parse_symbol_fields:
  "parse_symbol r = Inr q \<Longrightarrow> ps_symbol q = o_symbol r \<and> ps_date q = o_date r"
  by (auto simp: parse_symbol_def split: option.splits sum.splits)

lemma parse_symbol_present:
  "parse_symbol r = Inr q \<Longrightarrow> o_symbol r \<noteq> None \<Longrightarrow> all_fields_present q"
  by (auto simp: parse_symbol_def all_fields_present_def split: option.splits sum.splits)

lemma parse_symbol_matches:
  assumes "parse_symbol r = Inr q" and "o_symbol r = Some s"
  shows "regexp_search s \<noteq> None"
proof
  assume "regexp_search s = None"
  with assms(2) have "parse_symbol r = Inl (Exception ''Conversion Error'')"
    by (simp add: parse_symbol_def regexp_extract_def cast_integer_empty)
  with assms(1) show False by simp
qed

lemma parse_symbol_no_match:
  "o_symbol r = Some s \<Longrightarrow> regexp_search s = None
     \<Longrightarrow> parse_symbol r = Inl (Exception ''Conversion Error'')"
  by (simp add: parse_symbol_def regexp_extract_def cast_integer_empty)

lemma parse_symbol_det:
  "parse_symbol r = Inr q \<Longrightarrow> parse_symbol r' = Inr q' \<Longrightarrow> o_symbol r = o_symbol r'
     \<Longrightarrow> q' = q\<lparr>ps_date := o_date r'\<rparr>"
  by (auto simp: parse_symbol_def split: option.splits sum.splits)

lemma split_of_fields:
  "split_of q = Inr r \<Longrightarrow> s_symbol r = ps_symbol q \<and> s_date r = ps_date q"
  by (auto simp: split_of_def split: sum.splits)

lemma split_of_date:
  "split_of q = Inr r \<Longrightarrow> split_of (q\<lparr>ps_date := d\<rparr>) = Inr (r\<lparr>s_date := d\<rparr>)"
  by (auto simp: split_of_def split: sum.splits)

lemma candidates_symbol: "r \<in> set (candidates opts) \<Longrightarrow> o_symbol r \<noteq> None"
  by (auto simp: candidates_def like_nifty_def split: option.splits)

lemma split_query_struct:
  assumes "split_query opts = Inr rows"
  obtains parsed where "sequence (map parse_symbol (candidates opts)) = Inr parsed"
    and "sequence (map split_of (remdups parsed)) = Inr rows"
proof -
  from assms obtain parsed where
    p: "sequence (map parse_symbol (candidates opts)) = Inr parsed"
    and r: "sequence (map split_of (filter all_fields_present (remdups parsed))) = Inr rows"
    by (auto simp: split_query_def parsed_symbols_def candidates_def split: sum.splits)
  have "all_fields_present q" if "q \<in> set parsed" for q
  proof -
    from sequence_map_origin [OF p that] obtain x where
      "x \<in> set (candidates opts)" "parse_symbol x = Inr q" by blast
    then show ?thesis
      using parse_symbol_present candidates_symbol by blast
  qed
  then have "filter all_fields_present (remdups parsed) = remdups parsed"
    by (simp add: filter_id_conv)
  with p r that show ?thesis by simp
qed

lemma parsed_rows_det:
  assumes p: "sequence (map parse_symbol xs) = Inr parsed"
    and q: "q \<in> set parsed" "q' \<in> set parsed" "ps_symbol q = ps_symbol q'"
  shows "q' = q\<lparr>ps_date := ps_date q'\<rparr>"
proof -
  from sequence_map_origin [OF p q(1)] obtain x where x: "parse_symbol x = Inr q" by blast
  from sequence_map_origin [OF p q(2)] obtain x' where x': "parse_symbol x' = Inr q'" by blast
  from x x' q(3) have "o_symbol x = o_symbol x'" "ps_date q' = o_date x'"
    using parse_symbol_fields by metis+
  with parse_symbol_det [OF x x'] show ?thesis by simp
qed

lemma split_query_keys_distinct:
  assumes "split_query opts = Inr rows"
  shows "distinct (map split_key rows)"
proof -
  from assms obtain parsed where
    p: "sequence (map parse_symbol (candidates opts)) = Inr parsed"
    and r: "sequence (map split_of (remdups parsed)) = Inr rows"
    by (rule split_query_struct)
  have k: "map split_key rows = map (\<lambda>q. (ps_symbol q, ps_date q)) (remdups parsed)"
    using r by (rule sequence_map_keys) (simp add: split_key_def split_of_fields)
  have "inj_on (\<lambda>q. (ps_symbol q, ps_date q)) (set parsed)"
  proof (rule inj_onI)
    fix q q' assume a: "q \<in> set parsed" "q' \<in> set parsed"
      "(ps_symbol q, ps_date q) = (ps_symbol q', ps_date q')"
    then have "q' = q\<lparr>ps_date := ps_date q'\<rparr>"
      using parsed_rows_det [OF p] by simp
    moreover from a(3) have "ps_date q' = ps_date q" by simp
    ultimately have "q' = q\<lparr>ps_date := ps_date q\<rparr>" by simp
    then show "q = q'" by simp
  qed
  then show ?thesis
    unfolding k by (simp add: distinct_map)
qed

lemma split_query_keys_set:
  assumes "split_query opts = Inr rows"
  shows "set (map split_key rows) = set (map option_key (candidates opts))"
proof -
  from assms obtain parsed where
    p: "sequence (map parse_symbol (candidates opts)) = Inr parsed"
    and r: "sequence (map split_of (remdups parsed)) = Inr rows"
    by (rule split_query_struct)
  have k: "map split_key rows = map (\<lambda>q. (ps_symbol q, ps_date q)) (remdups parsed)"
    using r by (rule sequence_map_keys) (simp add: split_key_def split_of_fields)
  have o: "map (\<lambda>q. (ps_symbol q, ps_date q)) parsed = map option_key (candidates opts)"
    using p by (rule sequence_map_keys) (simp add: option_key_def parse_symbol_fields)
  have "set (map split_key rows) = set (map (\<lambda>q. (ps_symbol q, ps_date q)) parsed)"
    unfolding k by simp
  with o show ?thesis by simp
qed

lemma split_query_same_symbol:
  assumes "split_query opts = Inr rows"
    and "r \<in> set rows" "r' \<in> set rows" "s_symbol r = s_symbol r'"
  shows "r' = r\<lparr>s_date := s_date r'\<rparr>"
proof -
  from assms(1) obtain parsed where
    p: "sequence (map parse_symbol (candidates opts)) = Inr parsed"
    and s: "sequence (map split_of (remdups parsed)) = Inr rows"
    by (rule split_query_struct)
  from sequence_map_origin [OF s assms(2)] obtain q where
    q: "q \<in> set parsed" "split_of q = Inr r" by auto
  from sequence_map_origin [OF s assms(3)] obtain q' where
    q': "q' \<in> set parsed" "split_of q' = Inr r'" by auto
  from q(2) q'(2) assms(4) have "ps_symbol q = ps_symbol q'" "s_date r' = ps_date q'"
    using split_of_fields by metis+
  with parsed_rows_det [OF p q(1) q'(1)] have e: "q' = q\<lparr>ps_date := s_date r'\<rparr>" by simp
  from split_of_date [OF q(2), of "s_date r'"] q'(2) e show ?thesis by simp
qed

lemma split_query_symbol_matches:
  assumes "split_query opts = Inr rows" and "r \<in> set (candidates opts)"
  shows "\<exists>s. o_symbol r = Some s \<and> regexp_search s \<noteq> None"
proof -
  from assms(1) obtain parsed where
    p: "sequence (map parse_symbol (candidates opts)) = Inr parsed"
    by (rule split_query_struct)
  from sequence_map_image [OF p assms(2)] obtain q where "parse_symbol r = Inr q" by blast
  moreover from candidates_symbol [OF assms(2)] obtain s where "o_symbol r = Some s" by auto
  ultimately show ?thesis
    using parse_symbol_matches by blast
qed

lemma split_query_no_match:
  assumes "r \<in> set opts" and "o_symbol r = Some s" and "take 5 s = ''NIFTY''"
    and "regexp_search s = None"
  shows "\<exists>m. split_query opts = Inl (Exception m)"
proof -
  from assms(1-3) have c: "r \<in> set (candidates opts)"
    by (simp add: candidates_def like_nifty_def)
  have "\<not> (\<exists>rows. split_query opts = Inr rows)"
    using split_query_symbol_matches [OF _ c] assms(2,4) by auto
  moreover have "split_query opts \<noteq> Inl KeyboardInterrupt"
  proof
    assume a: "split_query opts = Inl KeyboardInterrupt"
    show False
    proof (cases "parsed_symbols opts")
      case (Inl e)
      with a have "sequence (map parse_symbol (candidates opts)) = Inl KeyboardInterrupt"
        by (auto simp: split_query_def parsed_symbols_def candidates_def split: sum.splits)
      from sequence_Inl [OF this] show False
        by (auto simp: parse_symbol_def cast_integer_def int32_def split: option.splits sum.splits if_splits)
    next
      case (Inr ps)
      with a have "sequence (map split_of (filter all_fields_present ps)) = Inl KeyboardInterrupt"
        by (simp add: split_query_def)
      from sequence_Inl [OF this] show False
        by (auto simp: split_of_def cast_integer_def int32_def make_date_def
            split: option.splits sum.splits if_splits)
    qed
  qed
  ultimately show ?thesis
    by (cases "split_query opts") (auto, metis exc.exhaust)
qed

lemma create_split_data_success:
  assumes "create_split_data p = (Inr True, p')"
  shows "\<exists>d rows. conn p = Some d \<and> split_query (options d) = Inr rows
           \<and> conn p' = Some (d\<lparr>splits := splits d @ rows\<rparr>)"
proof -
  obtain ready p0 where v: "validate_data p ''options'' 1 = (ready, p0)"
    by (cases "validate_data p ''options'' 1")
  note f = validate_data_fields [OF v]
  from assms v show ?thesis
    by (auto simp: create_split_data_def Let_def f
        split: if_splits option.splits sum.splits exc.splits prod.splits
        dest: validate_data_fields(1))
qed

lemma create_split_data_unparsed:
  assumes "conn p = Some d" and "r \<in> set (options d)" and "o_symbol r = Some s"
    and "take 5 s = ''NIFTY''" and "regexp_search s = None"
  shows "fst (create_split_data p) = Inr False \<and> conn (snd (create_split_data p)) = Some d
         \<and> log (snd (create_split_data p)) = log p"
proof -
  obtain ready p0 where v: "validate_data p ''options'' 1 = (ready, p0)"
    by (cases "validate_data p ''options'' 1")
  note f = validate_data_fields [OF v]
  from split_query_no_match [OF assms(2-5)] obtain m where
    m: "split_query (options d) = Inl (Exception m)" by blast
  from v m assms(1) f show ?thesis
    by (simp add: create_split_data_def)
qed

lemma create_split_data_no_warning:
  assumes "split_query (options d) = Inr rows"
  shows "unparsed_rows (d\<lparr>splits := splits d @ rows\<rparr>) = []"
proof -
  have "list_ex (\<lambda>s. sql_eq (o_symbol r) (s_symbol s)) (splits d @ rows)"
    if c: "r \<in> set (options d)" "like_nifty (o_symbol r)" for r
  proof -
    from c have "r \<in> set (candidates (options d))" by (simp add: candidates_def)
    then have "option_key r \<in> set (map split_key rows)"
      using split_query_keys_set [OF assms] by auto
    then obtain x where x: "x \<in> set rows" "s_symbol x = o_symbol r"
      by (auto simp: option_key_def split_key_def)
    from c(2) obtain t where "o_symbol r = Some t"
      by (auto simp: like_nifty_def split: option.splits)
    with x have "sql_eq (o_symbol r) (s_symbol x)" by (simp add: sql_eq_def)
    with x(1) show ?thesis by (auto simp: list_ex_iff)
  qed
  then show ?thesis
    by (auto simp: unparsed_rows_def filter_empty_conv)
qed

text \<open>
  C2 (as amended). When step 4 returns true, the rows it added to \<open>splits\<close> are one row per
  distinct pair (symbol, trade date) of the candidate rows of \<open>options\<close>: no two added rows
  agree in both symbol and trade date, the pairs of the added rows are exactly the pairs
  of the candidates, and two rows with the same symbol have the same instrument, expiry
  date, strike and option type (the decomposition of a symbol is a function of its text).
  A symbol seen on several trade dates therefore has one row for each of them.
\<close>

theorem create_split_data_rows:
  "create_split_data p = (Inr True, p') \<longrightarrow>
     (\<exists>d rows.
        conn p = Some d \<and> conn p' = Some (d\<lparr>splits := splits d @ rows\<rparr>)
        \<and> split_query (options d) = Inr rows
        \<and> distinct (map split_key rows)
        \<and> set (map split_key rows) = set (map option_key (candidates (options d)))
        \<and> (\<forall>r \<in> set rows. \<forall>r' \<in> set rows.
              s_symbol r = s_symbol r' \<longrightarrow>
                s_instrument r' = s_instrument r \<and> s_expiry_date r' = s_expiry_date r
                \<and> s_strike_price r' = s_strike_price r \<and> s_option_type r' = s_option_type r))"
proof
  assume "create_split_data p = (Inr True, p')"
  from create_split_data_success [OF this] obtain d rows where
    d: "conn p = Some d" "split_query (options d) = Inr rows"
      "conn p' = Some (d\<lparr>splits := splits d @ rows\<rparr>)"
    by blast
  have same: "s_instrument r' = s_instrument r \<and> s_expiry_date r' = s_expiry_date r
      \<and> s_strike_price r' = s_strike_price r \<and> s_option_type r' = s_option_type r"
    if "r \<in> set rows" "r' \<in> set rows" "s_symbol r = s_symbol r'" for r r'
  proof -
    from split_query_same_symbol [OF d(2) that] have "r' = r\<lparr>s_date := s_date r'\<rparr>" .
    then have "s_instrument r' = s_instrument (r\<lparr>s_date := s_date r'\<rparr>)"
      "s_expiry_date r' = s_expiry_date (r\<lparr>s_date := s_date r'\<rparr>)"
      "s_strike_price r' = s_strike_price (r\<lparr>s_date := s_date r'\<rparr>)"
      "s_option_type r' = s_option_type (r\<lparr>s_date := s_date r'\<rparr>)"
      by simp_all
    then show ?thesis by simp
  qed
  show "\<exists>d rows.
        conn p = Some d \<and> conn p' = Some (d\<lparr>splits := splits d @ rows\<rparr>)
        \<and> split_query (options d) = Inr rows
        \<and> distinct (map split_key rows)
        \<and> set (map split_key rows) = set (map option_key (candidates (options d)))
        \<and> (\<forall>r \<in> set rows. \<forall>r' \<in> set rows.
              s_symbol r = s_symbol r' \<longrightarrow>
                s_instrument r' = s_instrument r \<and> s_expiry_date r' = s_expiry_date r
                \<and> s_strike_price r' = s_strike_price r \<and> s_option_type r' = s_option_type r)"
    apply (rule exI [of _ d])
    apply (rule exI [of _ rows])
    using d split_query_keys_distinct [OF d(2)] split_query_keys_set [OF d(2)] same
    by blast
qed

text \<open>
  One symbol on ten trade dates: the stage succeeds and adds ten rows, one for each date.
\<close>

theorem create_split_data_rows_witness:
  "fst (create_split_data (processor_on True ten_days)) = Inr True
   \<and> (\<exists>rows. split_query (options ten_days) = Inr rows
        \<and> conn (snd (create_split_data (processor_on True ten_days)))
            = Some (ten_days\<lparr>splits := rows\<rparr>)
        \<and> distinct (map split_key rows)
        \<and> set (map split_key rows)
            = set (map (\<lambda>d. (Some ''NIFTY25JAN2421500CE'', Some d)) [19730 .. 19739]))"
proof -
  let ?p = "processor_on True ten_days"
  let ?X = "create_split_data ?p"
  have r: "fst ?X = Inr True" by code_simp
  then have x: "?X = (Inr True, snd ?X)" by (metis prod.collapse)
  have c: "conn ?p = Some ten_days" by (simp add: processor_on_def new_processor_def)
  have k: "map option_key (candidates (options ten_days))
      = map (\<lambda>d. (Some ''NIFTY25JAN2421500CE'', Some d)) [19730 .. 19739]"
    by (simp add: ten_days_def empty_db_def candidates_def like_nifty_def option_key_def
        option_at_def comp_def)
  have e: "splits ten_days = []" by (simp add: ten_days_def empty_db_def)
  from mp [OF create_split_data_rows [of ?p "snd ?X"] x] obtain d rows where
    h: "conn ?p = Some d \<and> conn (snd ?X) = Some (d\<lparr>splits := splits d @ rows\<rparr>)
        \<and> split_query (options d) = Inr rows
        \<and> distinct (map split_key rows)
        \<and> set (map split_key rows) = set (map option_key (candidates (options d)))
        \<and> (\<forall>r \<in> set rows. \<forall>r' \<in> set rows.
              s_symbol r = s_symbol r' \<longrightarrow>
                s_instrument r' = s_instrument r \<and> s_expiry_date r' = s_expiry_date r
                \<and> s_strike_price r' = s_strike_price r \<and> s_option_type r' = s_option_type r)"
    by (elim exE) (rule that)
  from h c have "d = ten_days" by simp
  with h k e have "split_query (options ten_days) = Inr rows
        \<and> conn (snd ?X) = Some (ten_days\<lparr>splits := rows\<rparr>)
        \<and> distinct (map split_key rows)
        \<and> set (map split_key rows)
            = set (map (\<lambda>d. (Some ''NIFTY25JAN2421500CE'', Some d)) [19730 .. 19739])"
    by simp
  with r show ?thesis by blast
qed

text \<open>
  C2 as stated fails: with one symbol traded on ten days the stage succeeds and \<open>splits\<close>
  holds ten rows, all with that one symbol.
\<close>

theorem one_symbol_ten_rows:
  "fst (create_split_data (processor_on True ten_days)) = Inr True
   \<and> (case conn (snd (create_split_data (processor_on True ten_days))) of
        None \<Rightarrow> False
      | Some d \<Rightarrow> length (splits d) = 10
          \<and> remdups (map s_symbol (splits d)) = [Some ''NIFTY25JAN2421500CE''])"
  by code_simp

text \<open>
  C3 at a failing input. The relation \<open>options\<close> holds ten rows of a well-formed symbol
  and one row with the candidate symbol \<open>NIFTY25JAN24CE\<close>, which the pattern does not match.
  The \<open>INSERT\<close> raises on the cast of the empty group 5, the \<open>except\<close> branch returns false:
  the stage fails, \<open>splits\<close> stays empty and no warning is logged. Without the stray row
  the stage returns true.
\<close>

theorem stray_symbol_fails_stage:
  "fst (create_split_data (processor_on True ten_days_and_stray)) = Inr False
   \<and> conn (snd (create_split_data (processor_on True ten_days_and_stray))) = Some ten_days_and_stray
   \<and> splits ten_days_and_stray = []
   \<and> log (snd (create_split_data (processor_on True ten_days_and_stray))) = []
   \<and> fst (create_split_data (processor_on True ten_days)) = Inr True"
proof -
  let ?p = "processor_on True ten_days_and_stray"
  have c: "conn ?p = Some ten_days_and_stray" "log ?p = []"
    by (simp_all add: processor_on_def new_processor_def)
  have r: "option_at ''NIFTY25JAN24CE'' 19730 \<in> set (options ten_days_and_stray)"
    by (simp add: ten_days_and_stray_def)
  have s: "o_symbol (option_at ''NIFTY25JAN24CE'' 19730) = Some ''NIFTY25JAN24CE''"
    by (simp add: option_at_def)
  have n: "regexp_search ''NIFTY25JAN24CE'' = None" by code_simp
  have e: "splits ten_days_and_stray = []"
    by (simp add: ten_days_and_stray_def ten_days_def empty_db_def)
  have t: "fst (create_split_data (processor_on True ten_days)) = Inr True" by code_simp
  from create_split_data_unparsed [OF c(1) r s _ n] c(2) e t show ?thesis by simp
qed

section \<open>Properties of cleanup and of the run of one file\<close>

lemma validate_data_kept:
  "validate_data p t m = (b, p') \<Longrightarrow>
     validate p' = validate p \<and> keep_temp p' = keep_temp p \<and> db_file p' = db_file p
     \<and> current_output p' = current_output p \<and> conn p' = conn p"
  using validate_data_fields [of p t m b p'] by simp

lemma create_option_data_kept:
  "create_option_data env p = (r, p') \<Longrightarrow>
     keep_temp p' = keep_temp p \<and> db_file p' = db_file p \<and> validate p' = validate p"
  by (auto simp: create_option_data_def Let_def
      split: option.splits sum.splits exc.splits prod.splits dest!: validate_data_kept)

lemma create_index_data_kept:
  "create_index_data env p = (r, p') \<Longrightarrow>
     keep_temp p' = keep_temp p \<and> db_file p' = db_file p \<and> validate p' = validate p"
  by (auto simp: create_index_data_def Let_def
      split: if_splits option.splits sum.splits exc.splits prod.splits dest!: validate_data_kept)

lemma create_future_data_kept:
  "create_future_data env p = (r, p') \<Longrightarrow>
     keep_temp p' = keep_temp p \<and> db_file p' = db_file p \<and> validate p' = validate p"
  by (auto simp: create_future_data_def Let_def
      split: if_splits option.splits sum.splits exc.splits prod.splits dest!: validate_data_kept)

lemma create_split_data_kept:
  "create_split_data p = (r, p') \<Longrightarrow>
     keep_temp p' = keep_temp p \<and> db_file p' = db_file p \<and> validate p' = validate p"
  by (auto simp: create_split_data_def Let_def
      split: if_splits option.splits sum.splits exc.splits prod.splits dest!: validate_data_kept)

lemma cal_gates_kept:
  "cal_gates p = (b, p') \<Longrightarrow>
     keep_temp p' = keep_temp p \<and> db_file p' = db_file p \<and> validate p' = validate p
     \<and> conn p' = conn p"
  by (auto simp: cal_gates_def Let_def split: if_splits prod.splits dest!: validate_data_kept)

lemma create_cal_data_kept:
  "create_cal_data env p = (r, p') \<Longrightarrow>
     keep_temp p' = keep_temp p \<and> db_file p' = db_file p \<and> validate p' = validate p"
  by (auto simp: create_cal_data_def Let_def
      split: if_splits option.splits sum.splits exc.splits prod.splits
      dest!: validate_data_kept cal_gates_kept)

lemma filter_and_export_kept:
  "filter_and_export env p w = (r, p', w') \<Longrightarrow>
     keep_temp p' = keep_temp p \<and> db_file p' = db_file p \<and> fs w \<subseteq> fs w'"
  by (auto simp: filter_and_export_def Let_def
      split: if_splits option.splits sum.splits exc.splits prod.splits dest!: validate_data_kept)

lemma and_also_kept:
  assumes "and_also x f = (r, p')"
    and "\<And>q r q'. f q = (r, q') \<Longrightarrow> keep_temp q' = keep_temp q \<and> db_file q' = db_file q \<and> validate q' = validate q"
  shows "keep_temp p' = keep_temp (snd x) \<and> db_file p' = db_file (snd x) \<and> validate p' = validate (snd x)"
  using assms by (cases x) (auto simp: and_also_def split: sum.splits bool.splits)

lemma run_stages_kept:
  assumes "run_stages env p w = (r, p', w')"
  shows "keep_temp p' = keep_temp p \<and> db_file p' = db_file p \<and> fs w \<subseteq> fs w'"
proof -
  let ?s1 = "create_option_data env p"
  let ?s2 = "and_also ?s1 (create_index_data env)"
  let ?s3 = "and_also ?s2 (create_future_data env)"
  let ?s4 = "and_also ?s3 create_split_data"
  let ?s5 = "and_also ?s4 (create_cal_data env)"
  have k1: "keep_temp (snd ?s1) = keep_temp p \<and> db_file (snd ?s1) = db_file p \<and> validate (snd ?s1) = validate p"
    using create_option_data_kept [of env p "fst ?s1" "snd ?s1"] by simp
  have k2: "keep_temp (snd ?s2) = keep_temp p \<and> db_file (snd ?s2) = db_file p \<and> validate (snd ?s2) = validate p"
    using and_also_kept [of ?s1 "create_index_data env" "fst ?s2" "snd ?s2"] create_index_data_kept k1
    by simp
  have k3: "keep_temp (snd ?s3) = keep_temp p \<and> db_file (snd ?s3) = db_file p \<and> validate (snd ?s3) = validate p"
    using and_also_kept [of ?s2 "create_future_data env" "fst ?s3" "snd ?s3"] create_future_data_kept k2
    by simp
  have k4: "keep_temp (snd ?s4) = keep_temp p \<and> db_file (snd ?s4) = db_file p \<and> validate (snd ?s4) = validate p"
    using and_also_kept [of ?s3 "create_split_data" "fst ?s4" "snd ?s4"] create_split_data_kept k3
    by simp
  have k5: "keep_temp (snd ?s5) = keep_temp p \<and> db_file (snd ?s5) = db_file p \<and> validate (snd ?s5) = validate p"
    using and_also_kept [of ?s4 "create_cal_data env" "fst ?s5" "snd ?s5"] create_cal_data_kept k4
    by simp
  obtain r5 p5 where s5: "?s5 = (r5, p5)" by (cases ?s5)
  with k5 have p5: "keep_temp p5 = keep_temp p" "db_file p5 = db_file p" by simp_all
  show ?thesis
  proof (cases "r5 = Inr True")
    case True
    with assms s5 have "filter_and_export env p5 w = (r, p', w')"
      by (simp add: run_stages_def)
    from filter_and_export_kept [OF this] p5 show ?thesis by simp
  next
    case False
    with assms s5 have "p' = p5" "w' = w"
      by (auto simp: run_stages_def split: sum.splits bool.splits)
    with p5 show ?thesis by simp
  qed
qed

lemma replace_nonempty:
  assumes "s \<noteq> []" and "new \<noteq> []"
  shows "replace s old new \<noteq> []"
proof -
  from assms(1) obtain c cs where "s = c # cs" by (cases s) auto
  with assms(2) show ?thesis by (simp add: replace_def)
qed

lemma process_body_kept:
  assumes "process_body env p input_file output_file w = (r, p1, w1)"
  shows "keep_temp p1 = keep_temp p"
    and "db_file p1 = Some (replace input_file ''.parquet'' ''.duckdb'')"
    and "(\<exists>d. connect_result env = Inr d) \<Longrightarrow> replace input_file ''.parquet'' ''.duckdb'' \<in> fs w1"
proof -
  let ?f = "replace input_file ''.parquet'' ''.duckdb''"
  let ?p0 = "p\<lparr>current_file := Some input_file, current_output := Some output_file,
                 db_file := Some ?f\<rparr>"
  have a: "keep_temp p1 = keep_temp p \<and> db_file p1 = Some ?f
      \<and> ((\<exists>d. connect_result env = Inr d) \<longrightarrow> ?f \<in> fs w1)"
  proof (cases "connect_result env")
    case (Inl e)
    with assms show ?thesis
      by (cases e) (auto simp: process_body_def Let_def)
  next
    case (Inr d)
    with assms have "run_stages env (?p0\<lparr>conn := Some d\<rparr>) (w\<lparr>fs := insert ?f (fs w)\<rparr>) = (r, p1, w1)"
      by (simp add: process_body_def Let_def)
    from run_stages_kept [OF this] show ?thesis by auto
  qed
  from a show "keep_temp p1 = keep_temp p" "db_file p1 = Some ?f" by simp_all
  from a show "(\<exists>d. connect_result env = Inr d) \<Longrightarrow> ?f \<in> fs w1" by simp
qed

lemma cleanup_closed: "closed (fst (cleanup env p w))"
  by (auto simp: cleanup_def closed_def Let_def split: option.splits prod.splits)

lemma cleanup_scratch:
  assumes "db_file p = Some f"
  shows "\<not> keep_temp p \<Longrightarrow> f \<noteq> [] \<Longrightarrow> remove_result env = None \<Longrightarrow> f \<notin> fs (snd (cleanup env p w))"
    and "\<not> keep_temp p \<Longrightarrow> f \<noteq> [] \<Longrightarrow> remove_result env = Some m \<Longrightarrow> f \<in> fs w
           \<Longrightarrow> f \<in> fs (snd (cleanup env p w)) \<and> WarnNotRemoved m \<in> set (log (fst (cleanup env p w)))"
    and "keep_temp p \<Longrightarrow> snd (cleanup env p w) = w"
  using assms by (auto simp: cleanup_def Let_def)

text \<open>
  C9 (as amended). Whatever \<open>process_file\<close> returns or raises (true, false, or an
  interrupt that leaves it), its \<open>finally\<close> clause has run: the session is closed and the
  per-file fields are reset. Unless the scratch file is to be kept, it is gone when its
  removal does not raise; when the removal raises, the exception is caught, a warning is
  logged and the file stays. With the keep option the file of an opened session stays.
  The loop of \<open>main\<close> continues with the state that \<open>process_file\<close> returns, so no file's
  cleanup is skipped (lemma \<open>process_files_closed\<close> below).
\<close>

theorem process_file_cleanup:
  "process_file env p input_file output_file w = (r, p', w') \<longrightarrow>
     closed p'
     \<and> (\<not> keep_temp p \<and> input_file \<noteq> [] \<and> remove_result env = None \<longrightarrow>
          replace input_file ''.parquet'' ''.duckdb'' \<notin> fs w')
     \<and> (\<not> keep_temp p \<and> input_file \<noteq> [] \<and> remove_result env = Some m
          \<and> (\<exists>d. connect_result env = Inr d) \<longrightarrow>
          replace input_file ''.parquet'' ''.duckdb'' \<in> fs w' \<and> WarnNotRemoved m \<in> set (log p'))
     \<and> (keep_temp p \<and> (\<exists>d. connect_result env = Inr d) \<longrightarrow>
          replace input_file ''.parquet'' ''.duckdb'' \<in> fs w')"
proof
  assume a: "process_file env p input_file output_file w = (r, p', w')"
  let ?f = "replace input_file ''.parquet'' ''.duckdb''"
  obtain r1 p1 w1 where b: "process_body env p input_file output_file w = (r1, p1, w1)"
    by (cases "process_body env p input_file output_file w") auto
  with a have c: "p' = fst (cleanup env p1 w1)" "w' = snd (cleanup env p1 w1)"
    by (auto simp: process_file_def split: prod.splits)
  note k = process_body_kept [OF b]
  have n: "input_file \<noteq> [] \<Longrightarrow> ?f \<noteq> []"
    by (rule replace_nonempty) simp_all
  have 1: "closed p'" unfolding c by (rule cleanup_closed)
  have 2: "\<not> keep_temp p \<and> input_file \<noteq> [] \<and> remove_result env = None \<longrightarrow> ?f \<notin> fs w'"
    unfolding c using cleanup_scratch(1) [OF k(2), of env w1] k(1) n by simp
  have 3: "\<not> keep_temp p \<and> input_file \<noteq> [] \<and> remove_result env = Some m
      \<and> (\<exists>d. connect_result env = Inr d) \<longrightarrow> ?f \<in> fs w' \<and> WarnNotRemoved m \<in> set (log p')"
    unfolding c using cleanup_scratch(2) [OF k(2), of env m w1] k(1,3) n by blast
  have 4: "keep_temp p \<and> (\<exists>d. connect_result env = Inr d) \<longrightarrow> ?f \<in> fs w'"
    unfolding c using cleanup_scratch(3) [OF k(2), of env w1] k(1,3) by simp
  from 1 2 3 4 show "closed p'
     \<and> (\<not> keep_temp p \<and> input_file \<noteq> [] \<and> remove_result env = None \<longrightarrow> ?f \<notin> fs w')
     \<and> (\<not> keep_temp p \<and> input_file \<noteq> [] \<and> remove_result env = Some m
          \<and> (\<exists>d. connect_result env = Inr d) \<longrightarrow> ?f \<in> fs w' \<and> WarnNotRemoved m \<in> set (log p'))
     \<and> (keep_temp p \<and> (\<exists>d. connect_result env = Inr d) \<longrightarrow> ?f \<in> fs w')"
    by blast
qed

text \<open>
  A file that succeeds, one that fails its first gate and one whose read is interrupted:
  each leaves the processor closed and no scratch file; with the keep option the scratch
  file stays.
\<close>

theorem process_file_cleanup_witness:
  "fst (process_file quiet_env (new_processor False False) ''/in/day.parquet''
          ''/out/day_combined.parquet'' empty_world) = Inr True
   \<and> closed (fst (snd (process_file quiet_env (new_processor False False) ''/in/day.parquet''
          ''/out/day_combined.parquet'' empty_world)))
   \<and> ''/in/day.duckdb'' \<notin> fs (snd (snd (process_file quiet_env (new_processor False False)
          ''/in/day.parquet'' ''/out/day_combined.parquet'' empty_world)))
   \<and> fst (process_file quiet_env (new_processor True False) ''/in/day.parquet''
          ''/out/day_combined.parquet'' empty_world) = Inr False
   \<and> closed (fst (snd (process_file quiet_env (new_processor True False) ''/in/day.parquet''
          ''/out/day_combined.parquet'' empty_world)))
   \<and> ''/in/day.duckdb'' \<notin> fs (snd (snd (process_file quiet_env (new_processor True False)
          ''/in/day.parquet'' ''/out/day_combined.parquet'' empty_world)))
   \<and> fst (process_file interrupted_env (new_processor True False) ''/in/day.parquet''
          ''/out/day_combined.parquet'' empty_world) = Inl KeyboardInterrupt
   \<and> closed (fst (snd (process_file interrupted_env (new_processor True False) ''/in/day.parquet''
          ''/out/day_combined.parquet'' empty_world)))
   \<and> ''/in/day.duckdb'' \<notin> fs (snd (snd (process_file interrupted_env (new_processor True False)
          ''/in/day.parquet'' ''/out/day_combined.parquet'' empty_world)))
   \<and> ''/in/day.duckdb'' \<in> fs (snd (snd (process_file quiet_env (new_processor True True)
          ''/in/day.parquet'' ''/out/day_combined.parquet'' empty_world)))"
proof -
  let ?i = "''/in/day.parquet''" and ?o = "''/out/day_combined.parquet''"
  let ?X1 = "process_file quiet_env (new_processor False False) ?i ?o empty_world"
  let ?X2 = "process_file quiet_env (new_processor True False) ?i ?o empty_world"
  let ?X3 = "process_file interrupted_env (new_processor True False) ?i ?o empty_world"
  let ?X4 = "process_file quiet_env (new_processor True True) ?i ?o empty_world"
  have r: "fst ?X1 = Inr True" "fst ?X2 = Inr False" "fst ?X3 = Inl KeyboardInterrupt"
    by code_simp+
  have f: "replace ?i ''.parquet'' ''.duckdb'' = ''/in/day.duckdb''"
    by code_simp
  have e: "remove_result quiet_env = None" "remove_result interrupted_env = None"
    "\<exists>d. connect_result quiet_env = Inr d"
    by (simp_all add: quiet_env_def interrupted_env_def)
  have k: "\<not> keep_temp (new_processor False False)" "\<not> keep_temp (new_processor True False)"
    "keep_temp (new_processor True True)"
    by (simp_all add: new_processor_def)
  have x: "?X1 = (fst ?X1, fst (snd ?X1), snd (snd ?X1))" "?X2 = (fst ?X2, fst (snd ?X2), snd (snd ?X2))"
    "?X3 = (fst ?X3, fst (snd ?X3), snd (snd ?X3))" "?X4 = (fst ?X4, fst (snd ?X4), snd (snd ?X4))"
    by simp_all
  from mp [OF process_file_cleanup x(1)] mp [OF process_file_cleanup x(2)]
    mp [OF process_file_cleanup x(3)] mp [OF process_file_cleanup x(4)] r f e k
  show ?thesis by simp
qed

text \<open>
  C9 as stated fails: the keep option is off, the file is processed with success, the
  removal of the scratch file raises, and the scratch file is still there afterwards.
\<close>

theorem locked_scratch_file_stays:
  "\<not> keep_temp (new_processor False False)
   \<and> fst (process_file locked_env (new_processor False False) ''/in/day.parquet''
          ''/out/day_combined.parquet'' empty_world) = Inr True
   \<and> ''/in/day.duckdb'' \<in> fs (snd (snd (process_file locked_env (new_processor False False)
          ''/in/day.parquet'' ''/out/day_combined.parquet'' empty_world)))"
  by code_simp

lemma process_file_closed: "closed (fst (snd (process_file env p i out w)))"
  using process_file_cleanup [of env p i out w "fst (process_file env p i out w)"
      "fst (snd (process_file env p i out w))" "snd (snd (process_file env p i out w))"]
  by simp

lemma process_files_closed:
  "closed (b_processor b) \<Longrightarrow> closed (b_processor (snd (process_files benv a files b)))"
proof (induction files arbitrary: b)
  case Nil
  then show ?case by simp
next
  case (Cons f files)
  let ?X = "process_file (file_envs benv f) (b_processor b) f
      (path_join (output_folder a) (replace (basename f) ''.parquet'' ''_combined.parquet'')) (b_world b)"
  have c: "closed (fst (snd ?X))" by (rule process_file_closed)
  obtain r p' w' where x: "?X = (r, p', w')" by (cases ?X) auto
  with c have p': "closed p'" by simp
  show ?case
  proof (cases r)
    case (Inl e)
    with x p' show ?thesis by (simp add: Let_def)
  next
    case (Inr ok)
    have "closed (b_processor (b\<lparr>b_processor :=
                    (if ok then p' else p'\<lparr>log := log p' @ [ErrorFailed (basename f)]\<rparr>),
                  b_world := w', file_count := file_count b + 1,
                  successful_count := (if ok then successful_count b + 1 else successful_count b)\<rparr>))"
      using p' by (simp add: closed_def)
    from Cons.IH [OF this] Inr x show ?thesis by (simp add: Let_def)
  qed
qed

end
